theory Spec2Isabelle
  imports Complex_Main "HOL-Library.Sublist"
begin

section \<open>Python values, exceptions and effects\<close>

text \<open>
  The repository passes untyped dictionaries (\<open>Dict[str, Any]\<close>) between its stages.
  A dictionary is an association list from string keys to dynamically typed values;
  a parameter is taken at its annotated type (\<open>Dict\<close>, \<open>List[Dict]\<close>), a value read out
  of a dictionary is dynamically typed.
\<close>

datatype pyval =
    PNone
  | PBool bool
  | PInt int
  | PFloat real
  | PStr string
  | PTime int
  | PList "pyval list"
  | PDict "(string \<times> pyval) list"

type_synonym pydict = "(string \<times> pyval) list"

datatype exc_kind =
  KeyError | TypeError | ValueError | AttributeError | ArticleException | OtherError

text \<open>An exception object: its class and \<open>str(e)\<close>. Only subclasses of \<open>Exception\<close>
  are modelled (every handler of the source is \<open>except Exception\<close> or narrower). The
  text of a \<open>KeyError\<close> is the \<open>repr\<close> of the key; the texts of the other exceptions the
  interpreter raises (\<open>TypeError\<close>, \<open>ValueError\<close>, \<open>AttributeError\<close>) are shortened.\<close>

datatype exn = Exn (exn_kind: exc_kind) (exn_str: string)

datatype level = INFO | WARNING | ERROR

text \<open>A logged f-string is kept as its fragments: literal text and formatted values.\<close>

datatype frag = Lit string | Val pyval

text \<open>Every effect of a run, in order: log records and calls to external collaborators.\<close>

datatype event =
    Log level "frag list"
  | LlmInvoke string string
  | ArticleFetch pyval bool
  | HttpGet string pydict
  | TwitterSearch string nat
  | ClockRead
  | ParseQuery string
  | AnalyzeContent string string
  | GeneratePrediction "pyval list"

type_synonym trace = "event list"

text \<open>The object \<open>newspaper.Article\<close> after \<open>download(); parse()\<close> (and \<open>nlp()\<close>).\<close>

record parsed_article =
  art_title :: string
  art_text :: string
  art_summary :: string
  art_keywords :: "string list"
  art_publish_date :: pyval

text \<open>The object \<open>tweepy\<close> yields for one tweet.\<close>

record status =
  st_id :: int
  st_full_text :: string
  st_created_at :: int
  st_screen_name :: string
  st_retweet_count :: int
  st_favorite_count :: int

text \<open>
  The external collaborators. Each answers a request with a value or an exception and
  may depend on everything that happened before (the trace), so a service that fails on
  its third call, or answers the same request differently, is an instance.
  \<^item> \<open>llm_invoke\<close>: \<open>ChatOpenAI.invoke([SystemMessage, HumanMessage]).content\<close>;
  \<^item> \<open>article_fetch url nlp\<close>: \<open>Article(url)\<close>, \<open>download()\<close>, \<open>parse()\<close> and, when
    \<open>nlp\<close>, \<open>nlp()\<close>;
  \<^item> \<open>requests_get\<close>: \<open>requests.get(url, params=...)\<close>, \<open>raise_for_status()\<close>, \<open>json()\<close>;
  \<^item> \<open>search_tweets\<close>: the statuses \<open>tweepy.Cursor(search_tweets, q=...)\<close> yields;
  \<^item> \<open>now\<close>: \<open>datetime.now()\<close>, in seconds; \<open>isoformat\<close> and \<open>strftime_ymd\<close>: the
    methods \<open>isoformat()\<close> and \<open>strftime('%Y-%m-%d')\<close> of a \<open>datetime\<close>;
  \<^item> \<open>py_str\<close>: \<open>str()\<close> of a value that is not a string, inside an f-string;
  \<^item> \<open>llm_parse_election_query\<close>, \<open>llm_analyze_content\<close>, \<open>llm_generate_prediction\<close>:
    the methods of \<open>LocalLLMHandler\<close>.
\<close>

record env =
  llm_invoke :: "trace \<Rightarrow> string \<Rightarrow> string \<Rightarrow> exn + string"
  article_fetch :: "trace \<Rightarrow> pyval \<Rightarrow> bool \<Rightarrow> exn + parsed_article"
  requests_get :: "trace \<Rightarrow> string \<Rightarrow> pydict \<Rightarrow> exn + pyval"
  search_tweets :: "trace \<Rightarrow> string \<Rightarrow> exn + status list"
  now :: "trace \<Rightarrow> int"
  isoformat :: "int \<Rightarrow> string"
  strftime_ymd :: "int \<Rightarrow> string"
  py_str :: "pyval \<Rightarrow> string"
  llm_parse_election_query :: "trace \<Rightarrow> string \<Rightarrow> exn + pydict"
  llm_analyze_content :: "trace \<Rightarrow> string \<Rightarrow> string \<Rightarrow> exn + pyval"
  llm_generate_prediction :: "trace \<Rightarrow> pyval list \<Rightarrow> exn + pyval"

subsection \<open>Built-ins\<close>

definition NL :: string where
  "NL = [CHR 0x0A]"

definition repr_key :: "string \<Rightarrow> string" where
  "repr_key k = [CHR 0x27] @ k @ [CHR 0x27]"

text \<open>\<open>k in d\<close>, \<open>d[k]\<close> and \<open>d.get(k, default)\<close> on a dictionary.\<close>

definition has_key :: "pydict \<Rightarrow> string \<Rightarrow> bool" where
  "has_key d k = (map_of d k \<noteq> None)"

definition dict_item :: "pydict \<Rightarrow> string \<Rightarrow> exn + pyval" where
  "dict_item d k =
     (case map_of d k of None \<Rightarrow> Inl (Exn KeyError (repr_key k)) | Some v \<Rightarrow> Inr v)"

definition dict_get :: "pydict \<Rightarrow> string \<Rightarrow> pyval \<Rightarrow> pyval" where
  "dict_get d k dflt = (case map_of d k of None \<Rightarrow> dflt | Some v \<Rightarrow> v)"

text \<open>\<open>v[k]\<close> with a string key on any value: only a dictionary can answer.\<close>

fun py_getitem :: "pyval \<Rightarrow> string \<Rightarrow> exn + pyval" where
  "py_getitem (PDict d) k = dict_item d k"
| "py_getitem v k = Inl (Exn TypeError ''subscript'')"

text \<open>\<open>v.get(k, default)\<close> on any value: only a dictionary has the method.\<close>

fun py_get :: "pyval \<Rightarrow> string \<Rightarrow> pyval \<Rightarrow> exn + pyval" where
  "py_get (PDict d) k dflt = Inr (dict_get d k dflt)"
| "py_get v k dflt = Inl (Exn AttributeError ''get'')"

text \<open>The truth value of \<open>if v:\<close>.\<close>

fun truthy :: "pyval \<Rightarrow> bool" where
  "truthy PNone = False"
| "truthy (PBool b) = b"
| "truthy (PInt i) = (i \<noteq> 0)"
| "truthy (PFloat r) = (r \<noteq> 0)"
| "truthy (PStr s) = (s \<noteq> [])"
| "truthy (PTime t) = True"
| "truthy (PList xs) = (xs \<noteq> [])"
| "truthy (PDict d) = (d \<noteq> [])"

text \<open>\<open>for x in v\<close>: a list yields its elements, a string its characters, a dictionary
  its keys; nothing else is iterable.\<close>

fun py_iter :: "pyval \<Rightarrow> exn + pyval list" where
  "py_iter (PList xs) = Inr xs"
| "py_iter (PStr s) = Inr (map (\<lambda>c. PStr [c]) s)"
| "py_iter (PDict d) = Inr (map (\<lambda>kv. PStr (fst kv)) d)"
| "py_iter v = Inl (Exn TypeError ''not iterable'')"

text \<open>\<open>len(v)\<close>.\<close>

fun py_len :: "pyval \<Rightarrow> exn + nat" where
  "py_len (PList xs) = Inr (length xs)"
| "py_len (PStr s) = Inr (length s)"
| "py_len (PDict d) = Inr (length d)"
| "py_len v = Inl (Exn TypeError ''len'')"

text \<open>\<open>sep.join(xs)\<close>: every element must be a string.\<close>

fun join_strs :: "string \<Rightarrow> string list \<Rightarrow> string" where
  "join_strs sep [] = []"
| "join_strs sep [s] = s"
| "join_strs sep (s # t # ss) = s @ sep @ join_strs sep (t # ss)"

fun as_strs :: "pyval list \<Rightarrow> exn + string list" where
  "as_strs [] = Inr []"
| "as_strs (PStr s # vs) =
     (case as_strs vs of Inl e \<Rightarrow> Inl e | Inr ss \<Rightarrow> Inr (s # ss))"
| "as_strs (v # vs) = Inl (Exn TypeError ''join'')"

definition py_join :: "string \<Rightarrow> pyval list \<Rightarrow> exn + string" where
  "py_join sep vs = (case as_strs vs of Inl e \<Rightarrow> Inl e | Inr ss \<Rightarrow> Inr (join_strs sep ss))"

text \<open>\<open>[f(x) for x in xs]\<close> where \<open>f\<close> may raise: the first exception ends the loop.\<close>

fun map_exn :: "('a \<Rightarrow> exn + 'b) \<Rightarrow> 'a list \<Rightarrow> exn + 'b list" where
  "map_exn f [] = Inr []"
| "map_exn f (x # xs) =
     (case f x of Inl e \<Rightarrow> Inl e
      | Inr y \<Rightarrow> (case map_exn f xs of Inl e \<Rightarrow> Inl e | Inr ys \<Rightarrow> Inr (y # ys)))"

text \<open>A value inside an f-string: a string is itself, anything else goes through \<open>str()\<close>.\<close>

definition fmt :: "env \<Rightarrow> pyval \<Rightarrow> string" where
  "fmt env v = (case v of PStr s \<Rightarrow> s | _ \<Rightarrow> py_str env v)"

subsection \<open>Effects\<close>

definition log_event :: "level \<Rightarrow> frag list \<Rightarrow> trace \<Rightarrow> trace" where
  "log_event l fs tr = tr @ [Log l fs]"

text \<open>\<open>except Exception as e: self.logger.error(f"<msg>{str(e)}"); raise\<close>.\<close>

definition log_reraise :: "string \<Rightarrow> (exn + 'a) \<times> trace \<Rightarrow> (exn + 'a) \<times> trace" where
  "log_reraise msg r =
     (case r of
        (Inl e, tr) \<Rightarrow> (Inl e, log_event ERROR [Lit msg, Lit (exn_str e)] tr)
      | (Inr x, tr) \<Rightarrow> (Inr x, tr))"

definition llm_call :: "env \<Rightarrow> string \<Rightarrow> string \<Rightarrow> trace \<Rightarrow> (exn + string) \<times> trace" where
  "llm_call env sys human tr = (llm_invoke env tr sys human, tr @ [LlmInvoke sys human])"

definition fetch_article :: "env \<Rightarrow> pyval \<Rightarrow> bool \<Rightarrow> trace \<Rightarrow> (exn + parsed_article) \<times> trace" where
  "fetch_article env url nlp tr = (article_fetch env tr url nlp, tr @ [ArticleFetch url nlp])"

definition clock_read :: "env \<Rightarrow> trace \<Rightarrow> int \<times> trace" where
  "clock_read env tr = (now env tr, tr @ [ClockRead])"

section \<open>analysis/news\_analyzer.py\<close>

definition ARTICLE_SYSTEM :: string where
  "ARTICLE_SYSTEM = ''You are an expert political analyst. Analyze this news article for election-related information.''"

definition META_SYSTEM :: string where
  "META_SYSTEM = ''You are an expert political analyst. Provide a meta-analysis of these news analyses.''"

text \<open>The \<open>try\<close> block of \<open>NewsAnalyzer._analyze_single_article\<close>.\<close>

definition article_body :: "env \<Rightarrow> pydict \<Rightarrow> trace \<Rightarrow> (exn + pydict) \<times> trace" where
  "article_body env article tr =
     (case dict_item article ''url'' of
        Inl e \<Rightarrow> (Inl e, tr)
      | Inr url \<Rightarrow>
         (case fetch_article env url True tr of
            (Inl e, tr1) \<Rightarrow> (Inl e, tr1)
          | (Inr parsed, tr1) \<Rightarrow>
             (case llm_call env ARTICLE_SYSTEM
                     (''Title: '' @ art_title parsed @ NL @ NL @ ''Content: '' @ art_text parsed) tr1 of
                (Inl e, tr2) \<Rightarrow> (Inl e, tr2)
              | (Inr content, tr2) \<Rightarrow>
                 (Inr [(''url'', url),
                       (''title'', PStr (art_title parsed)),
                       (''summary'', PStr (art_summary parsed)),
                       (''keywords'', PList (map PStr (art_keywords parsed))),
                       (''llm_analysis'', PStr content),
                       (''publication_date'', art_publish_date parsed)], tr2))))"

text \<open>\<open>NewsAnalyzer._analyze_single_article\<close>: the handler turns every exception of the
  body into an error record.\<close>

definition analyze_single_article :: "env \<Rightarrow> pydict \<Rightarrow> trace \<Rightarrow> (exn + pydict) \<times> trace" where
  "analyze_single_article env article tr =
     (case article_body env article tr of
        (Inr d, tr1) \<Rightarrow> (Inr d, tr1)
      | (Inl e, tr1) \<Rightarrow>
         (Inr [(''error'', PStr (exn_str e)),
               (''url'', dict_get article ''url'' (PStr ''unknown''))],
          log_event ERROR [Lit ''Error analyzing article '',
                           Val (dict_get article ''url'' (PStr ''unknown'')),
                           Lit '': '', Lit (exn_str e)] tr1))"

text \<open>Line 89: the \<open>llm_analysis\<close> of every record that has one, joined by a blank line.\<close>

definition combined_analysis :: "pydict list \<Rightarrow> exn + string" where
  "combined_analysis analyzed_articles =
     py_join (NL @ NL)
       (map (\<lambda>a. dict_get a ''llm_analysis'' PNone)
            (filter (\<lambda>a. has_key a ''llm_analysis'') analyzed_articles))"

text \<open>\<open>NewsAnalyzer._aggregate_analysis\<close>.\<close>

definition aggregate_analysis :: "env \<Rightarrow> pydict list \<Rightarrow> trace \<Rightarrow> (exn + pydict) \<times> trace" where
  "aggregate_analysis env analyzed_articles tr =
     log_reraise ''Error in aggregating analysis: ''
       (case combined_analysis analyzed_articles of
          Inl e \<Rightarrow> (Inl e, tr)
        | Inr text \<Rightarrow>
           (case llm_call env META_SYSTEM text tr of
              (Inl e, tr1) \<Rightarrow> (Inl e, tr1)
            | (Inr content, tr1) \<Rightarrow>
               (Inr [(''meta_analysis'', PStr content),
                     (''article_count'', PInt (int (length analyzed_articles))),
                     (''individual_analyses'', PList (map PDict analyzed_articles))], tr1)))"

text \<open>The loop of \<open>NewsAnalyzer.analyze\<close>: one analysis appended per article.\<close>

fun analyze_articles :: "env \<Rightarrow> pydict list \<Rightarrow> pydict list \<Rightarrow> trace \<Rightarrow> (exn + pydict list) \<times> trace" where
  "analyze_articles env [] analyzed tr = (Inr analyzed, tr)"
| "analyze_articles env (article # rest) analyzed tr =
     (case analyze_single_article env article tr of
        (Inl e, tr1) \<Rightarrow> (Inl e, tr1)
      | (Inr analysis, tr1) \<Rightarrow> analyze_articles env rest (analyzed @ [analysis]) tr1)"

text \<open>\<open>NewsAnalyzer.analyze\<close>.\<close>

definition news_analyze :: "env \<Rightarrow> pydict list \<Rightarrow> trace \<Rightarrow> (exn + pydict) \<times> trace" where
  "news_analyze env news_data tr =
     log_reraise ''Error analyzing news data: ''
       (case analyze_articles env news_data [] tr of
          (Inl e, tr1) \<Rightarrow> (Inl e, tr1)
        | (Inr analyzed, tr1) \<Rightarrow> aggregate_analysis env analyzed tr1)"

section \<open>analysis/social\_media\_analyzer.py\<close>

definition TWITTER_SYSTEM :: string where
  "TWITTER_SYSTEM = ''You are an expert in social media analysis and political sentiment. Analyze these tweets for election-related patterns and sentiment.''"

text \<open>The value of a number, for comparison (\<open>bool\<close> is a subclass of \<open>int\<close>).\<close>

fun num_of :: "pyval \<Rightarrow> real option" where
  "num_of (PBool b) = Some (if b then 1 else 0)"
| "num_of (PInt i) = Some (real_of_int i)"
| "num_of (PFloat r) = Some r"
| "num_of v = None"

text \<open>Strings are ordered by code point, lexicographically.\<close>

fun str_lt :: "string \<Rightarrow> string \<Rightarrow> bool" where
  "str_lt [] [] = False"
| "str_lt [] (y # ys) = True"
| "str_lt (x # xs) [] = False"
| "str_lt (x # xs) (y # ys) =
     ((of_char x :: nat) < of_char y \<or> (x = y \<and> str_lt xs ys))"

text \<open>\<open>a < b\<close>: numbers with numbers, strings with strings, datetimes with datetimes.
  \<open>None\<close> and dictionaries are not ordered; the ordering of lists is not modelled (a
  \<open>created_at\<close> is a datetime, a number or a string) and is a \<open>TypeError\<close> here too.\<close>

definition py_lt :: "pyval \<Rightarrow> pyval \<Rightarrow> exn + bool" where
  "py_lt a b =
     (case (num_of a, num_of b) of
        (Some x, Some y) \<Rightarrow> Inr (x < y)
      | _ \<Rightarrow>
        (case (a, b) of
           (PStr s, PStr t) \<Rightarrow> Inr (str_lt s t)
         | (PTime s, PTime t) \<Rightarrow> Inr (s < t)
         | _ \<Rightarrow> Inl (Exn TypeError ''not supported between instances'')))"

text \<open>\<open>min(f(x) for x in xs)\<close> and \<open>max(f(x) for x in xs)\<close>: the generator is consumed
  one element at a time, each compared with the best so far; an empty one is a
  \<open>ValueError\<close>.\<close>

fun min_loop :: "('a \<Rightarrow> exn + pyval) \<Rightarrow> pyval \<Rightarrow> 'a list \<Rightarrow> exn + pyval" where
  "min_loop f m [] = Inr m"
| "min_loop f m (x # xs) =
     (case f x of Inl e \<Rightarrow> Inl e
      | Inr v \<Rightarrow>
         (case py_lt v m of Inl e \<Rightarrow> Inl e
          | Inr b \<Rightarrow> min_loop f (if b then v else m) xs))"

fun py_min :: "('a \<Rightarrow> exn + pyval) \<Rightarrow> 'a list \<Rightarrow> exn + pyval" where
  "py_min f [] = Inl (Exn ValueError ''min() arg is an empty sequence'')"
| "py_min f (x # xs) = (case f x of Inl e \<Rightarrow> Inl e | Inr v \<Rightarrow> min_loop f v xs)"

fun max_loop :: "('a \<Rightarrow> exn + pyval) \<Rightarrow> pyval \<Rightarrow> 'a list \<Rightarrow> exn + pyval" where
  "max_loop f m [] = Inr m"
| "max_loop f m (x # xs) =
     (case f x of Inl e \<Rightarrow> Inl e
      | Inr v \<Rightarrow>
         (case py_lt m v of Inl e \<Rightarrow> Inl e
          | Inr b \<Rightarrow> max_loop f (if b then v else m) xs))"

fun py_max :: "('a \<Rightarrow> exn + pyval) \<Rightarrow> 'a list \<Rightarrow> exn + pyval" where
  "py_max f [] = Inl (Exn ValueError ''max() arg is an empty sequence'')"
| "py_max f (x # xs) = (case f x of Inl e \<Rightarrow> Inl e | Inr v \<Rightarrow> max_loop f v xs)"

text \<open>The dictionary literal returned by \<open>_analyze_twitter\<close>, evaluated left to right
  after the model call: \<open>len(tweets)\<close>, then the minimum, then the maximum of
  \<open>created_at\<close>.\<close>

definition twitter_result :: "string \<Rightarrow> pyval \<Rightarrow> pyval list \<Rightarrow> exn + pydict" where
  "twitter_result content tweets ts =
     (case py_len tweets of
        Inl e \<Rightarrow> Inl e
      | Inr n \<Rightarrow>
         (case py_min (\<lambda>tweet. py_getitem tweet ''created_at'') ts of
            Inl e \<Rightarrow> Inl e
          | Inr start \<Rightarrow>
             (case py_max (\<lambda>tweet. py_getitem tweet ''created_at'') ts of
                Inl e \<Rightarrow> Inl e
              | Inr stop \<Rightarrow>
                 Inr [(''sentiment_analysis'', PStr content),
                      (''tweet_count'', PInt (int n)),
                      (''time_period'', PDict [(''start'', start), (''end'', stop)])])))"

text \<open>\<open>SocialMediaAnalyzer._analyze_twitter\<close>.\<close>

definition analyze_twitter :: "env \<Rightarrow> pyval \<Rightarrow> trace \<Rightarrow> (exn + pydict) \<times> trace" where
  "analyze_twitter env tweets tr =
     log_reraise ''Error analyzing Twitter data: ''
       (case py_iter tweets of
          Inl e \<Rightarrow> (Inl e, tr)
        | Inr ts \<Rightarrow>
           (case map_exn (\<lambda>tweet. py_getitem tweet ''text'') ts of
              Inl e \<Rightarrow> (Inl e, tr)
            | Inr texts \<Rightarrow>
               (case py_join (NL @ NL) texts of
                  Inl e \<Rightarrow> (Inl e, tr)
                | Inr tweet_texts \<Rightarrow>
                   (case llm_call env TWITTER_SYSTEM (''Tweets:'' @ NL @ tweet_texts) tr of
                      (Inl e, tr1) \<Rightarrow> (Inl e, tr1)
                    | (Inr content, tr1) \<Rightarrow> (twitter_result content tweets ts, tr1)))))"

text \<open>\<open>SocialMediaAnalyzer._calculate_overall_sentiment\<close>: the body is
  \<open>return 0.0\<close>, which cannot raise.\<close>

definition calculate_overall_sentiment :: "pydict \<Rightarrow> real" where
  "calculate_overall_sentiment twitter_analysis = 0"

text \<open>\<open>SocialMediaAnalyzer.analyze\<close>.\<close>

definition social_analyze :: "env \<Rightarrow> pydict \<Rightarrow> trace \<Rightarrow> (exn + pydict) \<times> trace" where
  "social_analyze env social_data tr =
     log_reraise ''Error in social media analysis: ''
       (case analyze_twitter env (dict_get social_data ''twitter'' (PList [])) tr of
          (Inl e, tr1) \<Rightarrow> (Inl e, tr1)
        | (Inr twitter_analysis, tr1) \<Rightarrow>
           (case clock_read env tr1 of
              (t, tr2) \<Rightarrow>
               (Inr [(''timestamp'', PStr (isoformat env t)),
                     (''twitter_analysis'', PDict twitter_analysis),
                     (''overall_sentiment'',
                        PFloat (calculate_overall_sentiment twitter_analysis))], tr2)))"

section \<open>data/data\_collector.py\<close>

definition NEWS_URL :: string where
  "NEWS_URL = ''https://newsapi.org/v2/everything''"

definition DQ :: string where
  "DQ = [CHR 0x22]"

text \<open>Lines 87 to 92 and 185 to 190: the election type, the country and the region,
  each appended when \<open>params.get(key)\<close> is truthy.\<close>

definition place_terms :: "pydict \<Rightarrow> pyval list" where
  "place_terms params =
     (if truthy (dict_get params ''election_type'' PNone)
      then [dict_get params ''election_type'' PNone] else []) @
     (if truthy (dict_get params ''country'' PNone)
      then [dict_get params ''country'' PNone] else []) @
     (if truthy (dict_get params ''region'' PNone)
      then [dict_get params ''region'' PNone] else [])"

text \<open>Lines 95 to 97 and 193 to 195: every candidate between double quotes.\<close>

definition candidate_terms :: "env \<Rightarrow> pydict \<Rightarrow> exn + pyval list" where
  "candidate_terms env params =
     (let candidates = dict_get params ''candidates'' (PList []) in
      if truthy candidates
      then (case py_iter candidates of
              Inl e \<Rightarrow> Inl e
            | Inr cs \<Rightarrow> Inr (map (\<lambda>c. PStr (DQ @ fmt env c @ DQ)) cs))
      else Inr [])"

text \<open>Lines 84 to 103: the search expression of \<open>_collect_news\<close>.\<close>

definition news_query :: "env \<Rightarrow> pydict \<Rightarrow> exn + string" where
  "news_query env params =
     (case candidate_terms env params of
        Inl e \<Rightarrow> Inl e
      | Inr quoted \<Rightarrow>
         (case py_iter (dict_get params ''keywords'' (PList [])) of
            Inl e \<Rightarrow> Inl e
          | Inr keywords \<Rightarrow> py_join '' AND '' (place_terms params @ quoted @ keywords)))"

text \<open>Lines 107 to 113: the dictionary \<open>api_params\<close>, with the query and the date seven
  days before the clock reading \<open>t\<close>. The source builds it and never reads it.\<close>

definition news_api_params :: "env \<Rightarrow> pyval \<Rightarrow> string \<Rightarrow> int \<Rightarrow> pydict" where
  "news_api_params env news_api_key query t =
     [(''q'', PStr query),
      (''from'', PStr (strftime_ymd env (t - 7 * 86400))),
      (''sortBy'', PStr ''relevancy''),
      (''language'', PStr ''en''),
      (''apiKey'', news_api_key)]"

definition http_get :: "env \<Rightarrow> string \<Rightarrow> pydict \<Rightarrow> trace \<Rightarrow> (exn + pyval) \<times> trace" where
  "http_get env url ps tr = (requests_get env tr url ps, tr @ [HttpGet url ps])"

text \<open>Lines 128 to 134: the record of one processed article.\<close>

definition processed_article :: "pyval \<Rightarrow> parsed_article \<Rightarrow> exn + pydict" where
  "processed_article article article_obj =
     (case py_getitem article ''url'' of
        Inl e \<Rightarrow> Inl e
      | Inr url \<Rightarrow>
         (case py_getitem article ''title'' of
            Inl e \<Rightarrow> Inl e
          | Inr title \<Rightarrow>
             (case py_getitem article ''publishedAt'' of
                Inl e \<Rightarrow> Inl e
              | Inr published \<Rightarrow>
                 (case py_getitem article ''source'' of
                    Inl e \<Rightarrow> Inl e
                  | Inr source \<Rightarrow>
                     (case py_getitem source ''name'' of
                        Inl e \<Rightarrow> Inl e
                      | Inr name \<Rightarrow>
                         Inr [(''url'', url),
                              (''title'', title),
                              (''text'', PStr (art_text article_obj)),
                              (''published_at'', published),
                              (''source'', name)])))))"

text \<open>Lines 121 to 137: the loop over the articles of the response. Only an
  \<open>ArticleException\<close> is handled per article.\<close>

fun process_articles :: "env \<Rightarrow> pyval list \<Rightarrow> pydict list \<Rightarrow> trace \<Rightarrow> (exn + pydict list) \<times> trace" where
  "process_articles env [] processed tr = (Inr processed, tr)"
| "process_articles env (article # rest) processed tr =
     (case py_getitem article ''url'' of
        Inl e \<Rightarrow> (Inl e, tr)
      | Inr url \<Rightarrow>
         (case fetch_article env url False tr of
            (Inl e, tr1) \<Rightarrow>
              if exn_kind e = ArticleException
              then process_articles env rest processed
                     (log_event WARNING
                        [Lit ''Error processing article '', Val url, Lit '': '', Lit (exn_str e)] tr1)
              else (Inl e, tr1)
          | (Inr article_obj, tr1) \<Rightarrow>
             (case processed_article article article_obj of
                Inl e \<Rightarrow> (Inl e, tr1)
              | Inr item \<Rightarrow> process_articles env rest (processed @ [item]) tr1)))"

text \<open>\<open>DataCollector._collect_news\<close>. Line 115 sends \<open>params\<close>, the election parameters.\<close>

definition collect_news :: "env \<Rightarrow> pydict \<Rightarrow> trace \<Rightarrow> (exn + pydict list) \<times> trace" where
  "collect_news env params tr =
     log_reraise ''Error collecting news data: ''
       (case news_query env params of
          Inl e \<Rightarrow> (Inl e, tr)
        | Inr query \<Rightarrow>
           (case clock_read env tr of
              (t, tr1) \<Rightarrow>
               (case http_get env NEWS_URL params tr1 of
                  (Inl e, tr2) \<Rightarrow> (Inl e, tr2)
                | (Inr body, tr2) \<Rightarrow>
                   (case py_get body ''articles'' (PList []) of
                      Inl e \<Rightarrow> (Inl e, tr2)
                    | Inr articles \<Rightarrow>
                       (case py_iter articles of
                          Inl e \<Rightarrow> (Inl e, tr2)
                        | Inr arts \<Rightarrow> process_articles env arts [] tr2)))))"

text \<open>Lines 182 to 203: the search expression of \<open>_collect_twitter\<close>.\<close>

definition twitter_query :: "env \<Rightarrow> pydict \<Rightarrow> exn + string" where
  "twitter_query env params =
     (case candidate_terms env params of
        Inl e \<Rightarrow> Inl e
      | Inr quoted \<Rightarrow>
         (let hashtags = dict_get params ''hashtags'' (PList []) in
          case (if truthy hashtags then py_iter hashtags else Inr []) of
            Inl e \<Rightarrow> Inl e
          | Inr tags \<Rightarrow>
             (case py_join '' '' (place_terms params @ quoted @ tags) of
                Inl e \<Rightarrow> Inl e
              | Inr q \<Rightarrow> Inr (q @ '' -filter:retweets''))))"

definition tweet_dict :: "status \<Rightarrow> pydict" where
  "tweet_dict tweet =
     [(''id'', PInt (st_id tweet)),
      (''text'', PStr (st_full_text tweet)),
      (''created_at'', PTime (st_created_at tweet)),
      (''user'', PStr (st_screen_name tweet)),
      (''retweet_count'', PInt (st_retweet_count tweet)),
      (''favorite_count'', PInt (st_favorite_count tweet))]"

text \<open>\<open>tweepy.Cursor(...).items(limit)\<close>: at most \<open>limit\<close> of the statuses found.\<close>

definition cursor_items :: "env \<Rightarrow> string \<Rightarrow> nat \<Rightarrow> trace \<Rightarrow> (exn + status list) \<times> trace" where
  "cursor_items env q limit tr =
     (case search_tweets env tr q of
        Inl e \<Rightarrow> (Inl e, tr @ [TwitterSearch q limit])
      | Inr found \<Rightarrow> (Inr (take limit found), tr @ [TwitterSearch q limit]))"

text \<open>\<open>DataCollector._collect_twitter\<close>, up to its first \<open>return\<close> (the lines after it
  are unreachable).\<close>

definition collect_twitter :: "env \<Rightarrow> pydict \<Rightarrow> trace \<Rightarrow> (exn + pydict list) \<times> trace" where
  "collect_twitter env params tr =
     log_reraise ''Error collecting Twitter data: ''
       (case twitter_query env params of
          Inl e \<Rightarrow> (Inl e, tr)
        | Inr query \<Rightarrow>
           (case cursor_items env query 1000 tr of
              (Inl e, tr1) \<Rightarrow> (Inl e, tr1)
            | (Inr found, tr1) \<Rightarrow> (Inr (map tweet_dict found), tr1)))"

text \<open>\<open>DataCollector._collect_social_media\<close>.\<close>

definition collect_social_media :: "env \<Rightarrow> pydict \<Rightarrow> trace \<Rightarrow> (exn + pydict) \<times> trace" where
  "collect_social_media env params tr =
     log_reraise ''Error collecting social media data: ''
       (case collect_twitter env params tr of
          (Inl e, tr1) \<Rightarrow> (Inl e, tr1)
        | (Inr twitter_data, tr1) \<Rightarrow>
           (Inr [(''twitter'', PList (map PDict twitter_data)),
                 (''parameters'', PDict params)], tr1))"

text \<open>\<open>DataCollector.collect\<close>.\<close>

definition collect :: "env \<Rightarrow> pydict \<Rightarrow> trace \<Rightarrow> (exn + pydict) \<times> trace" where
  "collect env params tr =
     log_reraise ''Error collecting data: ''
       (case collect_news env params tr of
          (Inl e, tr1) \<Rightarrow> (Inl e, tr1)
        | (Inr news_data, tr1) \<Rightarrow>
           (case collect_social_media env params tr1 of
              (Inl e, tr2) \<Rightarrow> (Inl e, tr2)
            | (Inr social_data, tr2) \<Rightarrow>
               (case clock_read env tr2 of
                  (t, tr3) \<Rightarrow>
                   (Inr [(''timestamp'', PStr (isoformat env t)),
                         (''parameters'', PDict params),
                         (''news'', PList (map PDict news_data)),
                         (''social'', PDict social_data)], tr3))))"

section \<open>main.py\<close>

definition handler_parse :: "env \<Rightarrow> string \<Rightarrow> trace \<Rightarrow> (exn + pydict) \<times> trace" where
  "handler_parse env query tr = (llm_parse_election_query env tr query, tr @ [ParseQuery query])"

definition handler_analyze :: "env \<Rightarrow> string \<Rightarrow> string \<Rightarrow> trace \<Rightarrow> (exn + pyval) \<times> trace" where
  "handler_analyze env text kind tr =
     (llm_analyze_content env tr text kind, tr @ [AnalyzeContent text kind])"

definition handler_predict :: "env \<Rightarrow> pyval list \<Rightarrow> trace \<Rightarrow> (exn + pyval) \<times> trace" where
  "handler_predict env analyses tr =
     (llm_generate_prediction env tr analyses, tr @ [GeneratePrediction analyses])"

text \<open>\<open>ElectionResearchSystem.parse_election_query\<close>.\<close>

definition parse_election_query :: "env \<Rightarrow> string \<Rightarrow> trace \<Rightarrow> (exn + pydict) \<times> trace" where
  "parse_election_query env query tr =
     log_reraise ''Error parsing query: ''
       (case handler_parse env query (log_event INFO [Lit ''Parsing query: '', Val (PStr query)] tr) of
          (Inl e, tr1) \<Rightarrow> (Inl e, tr1)
        | (Inr parameters, tr1) \<Rightarrow>
           (Inr parameters,
            log_event INFO [Lit ''Extracted parameters: '', Val (PDict parameters)] tr1))"

text \<open>\<open>'\n'.join(item['text'] for item in items)\<close>, lines 73 and 84.\<close>

definition joined_texts :: "pyval \<Rightarrow> exn + string" where
  "joined_texts items =
     (case py_iter items of
        Inl e \<Rightarrow> Inl e
      | Inr xs \<Rightarrow>
         (case map_exn (\<lambda>item. py_getitem item ''text'') xs of
            Inl e \<Rightarrow> Inl e
          | Inr texts \<Rightarrow> py_join NL texts))"

text \<open>Lines 67 to 102 of \<open>run_analysis\<close>: what follows the collection.\<close>

definition analyze_collected :: "env \<Rightarrow> pydict \<Rightarrow> pydict \<Rightarrow> trace \<Rightarrow> (exn + pydict) \<times> trace" where
  "analyze_collected env election_params raw_data tr =
     (case dict_item raw_data ''news'' of
        Inl e \<Rightarrow> (Inl e, log_event INFO [Lit ''Analyzing news content...''] tr)
      | Inr news_data \<Rightarrow>
     (case joined_texts news_data of
        Inl e \<Rightarrow> (Inl e, log_event INFO [Lit ''Analyzing news content...''] tr)
      | Inr news_text \<Rightarrow>
     (case handler_analyze env news_text ''news article''
             (log_event INFO [Lit ''Analyzing news content...''] tr) of
        (Inl e, tr1) \<Rightarrow> (Inl e, tr1)
      | (Inr news_result, tr1) \<Rightarrow>
     (case dict_item raw_data ''social'' of
        Inl e \<Rightarrow> (Inl e, log_event INFO [Lit ''Analyzing social media content...''] tr1)
      | Inr social \<Rightarrow>
     (case py_getitem social ''twitter'' of
        Inl e \<Rightarrow> (Inl e, log_event INFO [Lit ''Analyzing social media content...''] tr1)
      | Inr social_data \<Rightarrow>
     (case joined_texts social_data of
        Inl e \<Rightarrow> (Inl e, log_event INFO [Lit ''Analyzing social media content...''] tr1)
      | Inr social_text \<Rightarrow>
     (case handler_analyze env social_text ''social media''
             (log_event INFO [Lit ''Analyzing social media content...''] tr1) of
        (Inl e, tr2) \<Rightarrow> (Inl e, tr2)
      | (Inr social_result, tr2) \<Rightarrow>
     (case handler_predict env [news_result, social_result]
             (log_event INFO [Lit ''Generating predictions...''] tr2) of
        (Inl e, tr3) \<Rightarrow> (Inl e, tr3)
      | (Inr predictions, tr3) \<Rightarrow>
     (case clock_read env tr3 of
        (t, tr4) \<Rightarrow>
          (Inr [(''timestamp'', PStr (isoformat env t)),
                (''query_parameters'', PDict election_params),
                (''news_analysis'',
                   PDict [(''articles'', news_data), (''analysis'', news_result)]),
                (''social_analysis'',
                   PDict [(''tweets'', social_data), (''analysis'', social_result)]),
                (''predictions'', predictions)], tr4))))))))))"

text \<open>\<open>ElectionResearchSystem.run_analysis\<close>.\<close>

definition run_analysis :: "env \<Rightarrow> string \<Rightarrow> trace \<Rightarrow> (exn + pydict) \<times> trace" where
  "run_analysis env query tr =
     log_reraise ''Error in analysis pipeline: ''
       (case parse_election_query env query tr of
          (Inl e, tr1) \<Rightarrow> (Inl e, tr1)
        | (Inr election_params, tr1) \<Rightarrow>
           (case collect env election_params
                   (log_event INFO [Lit ''Starting data collection...''] tr1) of
              (Inl e, tr2) \<Rightarrow> (Inl e, tr2)
            | (Inr raw_data, tr2) \<Rightarrow> analyze_collected env election_params raw_data tr2))"

section \<open>The Predictor\<close>

record prediction_result =
  confidence :: real
  predictions :: "(string \<times> real) list"

definition clamp01 :: "real \<Rightarrow> real" where
  "clamp01 x = max 0 (min 1 x)"

text \<open>Modelled from the spec: the Predictor (\<open>models/prediction_model.py\<close> and
  \<open>models/local_llm.py\<close> are not among the sources; \<open>main.py\<close> only imports them).
  Section 4.4: given N candidate names, produce an entry per candidate in [0,1] and an
  overall confidence in [0,1]; the method of derivation is an implementation choice
  (here the raw scores \<open>score\<close> and \<open>conf\<close>, brought into range); zero candidates give an
  empty predictions mapping and confidence 0.\<close>

definition predict :: "(string \<Rightarrow> real) \<Rightarrow> real \<Rightarrow> string list \<Rightarrow> prediction_result" where
  "predict score conf candidates =
     (if candidates = [] then \<lparr>confidence = 0, predictions = []\<rparr>
      else \<lparr>confidence = clamp01 conf,
            predictions = map (\<lambda>c. (c, clamp01 (score c))) (remdups candidates)\<rparr>)"

section \<open>Stub collaborators\<close>

definition stub_article :: parsed_article where
  "stub_article =
     \<lparr>art_title = ''Title'', art_text = ''Body'', art_summary = ''Summary'',
      art_keywords = [''vote''], art_publish_date = PNone\<rparr>"

definition stub_listing :: "string \<Rightarrow> pyval" where
  "stub_listing url =
     PDict [(''url'', PStr url), (''title'', PStr ''Headline''),
            (''publishedAt'', PStr ''2024-01-01''),
            (''source'', PDict [(''name'', PStr ''Wire'')])]"

definition stub_status :: "int \<Rightarrow> status" where
  "stub_status i =
     \<lparr>st_id = i, st_full_text = ''tweet'', st_created_at = 100 + i,
      st_screen_name = ''user'', st_retweet_count = 0, st_favorite_count = 0\<rparr>"

definition stub_params :: pydict where
  "stub_params =
     [(''election_type'', PStr ''presidential''), (''country'', PStr ''USA''),
      (''candidates'', PList [PStr ''A'', PStr ''B''])]"

text \<open>Deterministic stubs: every article whose URL is not \<open>bad\<close> downloads, the news API
  lists three articles, the search finds two tweets, every model call answers. The
  clock is the only collaborator that looks at the trace.\<close>

definition stub_env :: env where
  "stub_env =
     \<lparr>llm_invoke = (\<lambda>tr sys human. Inr ''analysis''),
      article_fetch = (\<lambda>tr url nlp.
         if url = PStr ''bad'' then Inl (Exn ArticleException ''download failed'')
         else Inr stub_article),
      requests_get = (\<lambda>tr url ps.
         Inr (PDict [(''articles'',
                PList [stub_listing ''a1'', stub_listing ''bad'', stub_listing ''a3''])])),
      search_tweets = (\<lambda>tr q. Inr [stub_status 1, stub_status 2]),
      now = (\<lambda>tr. int (length tr)),
      isoformat = (\<lambda>t. replicate (nat t) CHR ''t''),
      strftime_ymd = (\<lambda>t. replicate (nat t) CHR ''d''),
      py_str = (\<lambda>v. ''?''),
      llm_parse_election_query = (\<lambda>tr query. Inr stub_params),
      llm_analyze_content = (\<lambda>tr text kind. Inr (PStr ''summary'')),
      llm_generate_prediction = (\<lambda>tr analyses. Inr (PDict [(''confidence'', PFloat 0)]))\<rparr>"

text \<open>The same stubs with a text-understanding service that always fails.\<close>

definition down_env :: env where
  "down_env = stub_env\<lparr>llm_invoke := (\<lambda>tr sys human. Inl (Exn OtherError ''service unavailable''))\<rparr>"

text \<open>The same stubs with sources that find nothing.\<close>

definition empty_env :: env where
  "empty_env =
     stub_env\<lparr>requests_get := (\<lambda>tr url ps. Inr (PDict [(''articles'', PList [])])),
              search_tweets := (\<lambda>tr q. Inr [])\<rparr>"

text \<open>Five raw items, the third of which cannot be downloaded; three item analyses, the
  second an error record; two collected tweets.\<close>

definition five_articles :: "pydict list" where
  "five_articles = map (\<lambda>u. [(''url'', PStr u)]) [''a1'', ''a2'', ''bad'', ''a4'', ''a5'']"

definition stub_analysis :: "string \<Rightarrow> pydict" where
  "stub_analysis u =
     [(''url'', PStr u), (''title'', PStr ''Title''), (''summary'', PStr ''Summary''),
      (''keywords'', PList [PStr ''vote'']), (''llm_analysis'', PStr ''analysis''),
      (''publication_date'', PNone)]"


definition stub_social :: pydict where
  "stub_social =
     [(''twitter'', PList [PDict (tweet_dict (stub_status 1)), PDict (tweet_dict (stub_status 2))]),
      (''parameters'', PDict stub_params)]"





fun is_http :: "event \<Rightarrow> bool" where
  "is_http (HttpGet url ps) = True"
| "is_http ev = False"



definition noparse_env :: env where
  "noparse_env =
     stub_env\<lparr>llm_parse_election_query := (\<lambda>tr query. Inl (Exn ValueError ''no election found''))\<rparr>"

definition offline_env :: env where
  "offline_env =
     stub_env\<lparr>requests_get := (\<lambda>tr url ps. Inl (Exn OtherError ''connection refused''))\<rparr>"

text \<open>What the stubs collect and what a run on them returns after the timestamp.\<close>

definition stub_item :: "string \<Rightarrow> pydict" where
  "stub_item url =
     [(''url'', PStr url), (''title'', PStr ''Headline''), (''text'', PStr ''Body''),
      (''published_at'', PStr ''2024-01-01''), (''source'', PStr ''Wire'')]"

definition stub_query :: string where
  "stub_query = ''presidential AND USA AND '' @ DQ @ ''A'' @ DQ @ '' AND '' @ DQ @ ''B'' @ DQ"

definition stub_run_rest :: pydict where
  "stub_run_rest =
     [(''query_parameters'', PDict stub_params),
      (''news_analysis'',
         PDict [(''articles'', PList [PDict (stub_item ''a1''), PDict (stub_item ''a3'')]),
                (''analysis'', PStr ''summary'')]),
      (''social_analysis'',
         PDict [(''tweets'', PList [PDict (tweet_dict (stub_status 1)),
                                    PDict (tweet_dict (stub_status 2))]),
                (''analysis'', PStr ''summary'')]),
      (''predictions'', PDict [(''confidence'', PFloat 0)])]"

definition empty_run_rest :: pydict where
  "empty_run_rest =
     [(''query_parameters'', PDict stub_params),
      (''news_analysis'', PDict [(''articles'', PList []), (''analysis'', PStr ''summary'')]),
      (''social_analysis'', PDict [(''tweets'', PList []), (''analysis'', PStr ''summary'')]),
      (''predictions'', PDict [(''confidence'', PFloat 0)])]"

text \<open>Deterministic collaborators: \<open>deterministic env\<close> answers every request as \<open>env\<close>
  does at the start of a run, whatever happened before; \<open>with_clock\<close> sets the clock.\<close>

definition deterministic :: "env \<Rightarrow> env" where
  "deterministic env =
     env\<lparr>llm_invoke := (\<lambda>tr. llm_invoke env []),
         article_fetch := (\<lambda>tr. article_fetch env []),
         requests_get := (\<lambda>tr. requests_get env []),
         search_tweets := (\<lambda>tr. search_tweets env []),
         llm_parse_election_query := (\<lambda>tr. llm_parse_election_query env []),
         llm_analyze_content := (\<lambda>tr. llm_analyze_content env []),
         llm_generate_prediction := (\<lambda>tr. llm_generate_prediction env [])\<rparr>"

definition with_clock :: "env \<Rightarrow> (trace \<Rightarrow> int) \<Rightarrow> env" where
  "with_clock env clock = env\<lparr>now := clock\<rparr>"

text \<open>The same stubs with a search that finds 1199 tweets.\<close>

definition busy_env :: env where
  "busy_env = stub_env\<lparr>search_tweets := (\<lambda>tr q. Inr (map (\<lambda>i. stub_status (int i)) [1 ..< 1200]))\<rparr>"

section \<open>Shared lemmas\<close>

lemma fst_log_reraise: "fst (log_reraise msg r) = fst r"
  by (cases r) (auto simp: log_reraise_def split: sum.splits)

lemma article_body_ok:
  assumes "article_body env article tr = (Inr d, tr1)"
  shows "has_key d ''url'' \<and> has_key d ''llm_analysis'' \<and> \<not> has_key d ''error'' \<and>
         (\<exists>s. dict_get d ''llm_analysis'' PNone = PStr s)"
  using assms
  by (auto simp: article_body_def has_key_def dict_get_def split: sum.splits prod.splits)

lemma analyze_single_article_total:
  "\<exists>d tr1. analyze_single_article env article tr = (Inr d, tr1)"
  by (cases "article_body env article tr")
     (auto simp: analyze_single_article_def split: sum.splits)

lemma analyze_single_article_shape:
  assumes "fst (analyze_single_article env article t) = Inr a"
  shows "(has_key a ''error'' \<longleftrightarrow> (\<exists>e. fst (article_body env article t) = Inl e)) \<and>
         (has_key a ''error'' \<longrightarrow> \<not> has_key a ''llm_analysis'') \<and>
         (has_key a ''llm_analysis'' \<longrightarrow> (\<exists>s. dict_get a ''llm_analysis'' PNone = PStr s))"
proof (cases "article_body env article t")
  case (Pair r tr1)
  show ?thesis
  proof (cases r)
    case (Inl e)
    with Pair assms show ?thesis
      by (auto simp: analyze_single_article_def has_key_def)
  next
    case (Inr d)
    with Pair assms article_body_ok [of env article t d tr1] show ?thesis
      by (auto simp: analyze_single_article_def)
  qed
qed

lemma analyze_articles_acc:
  "\<exists>recs tr1. analyze_articles env items acc tr = (Inr (acc @ recs), tr1) \<and>
     list_all2 (\<lambda>article a. \<exists>t. fst (analyze_single_article env article t) = Inr a) items recs"
proof (induction items arbitrary: acc tr)
  case Nil
  show ?case by simp
next
  case (Cons article rest)
  obtain d tr1 where d: "analyze_single_article env article tr = (Inr d, tr1)"
    using analyze_single_article_total [of env article tr] by blast
  from Cons.IH [of "acc @ [d]" tr1] obtain recs tr2 where
    r: "analyze_articles env rest (acc @ [d]) tr1 = (Inr ((acc @ [d]) @ recs), tr2)"
    and l: "list_all2 (\<lambda>article a. \<exists>t. fst (analyze_single_article env article t) = Inr a) rest recs"
    by blast
  have "fst (analyze_single_article env article tr) = Inr d" using d by simp
  then have "\<exists>t. fst (analyze_single_article env article t) = Inr d" by blast
  with d r l show ?case
    by (intro exI [of _ "d # recs"] exI [of _ tr2]) simp
qed

lemma as_strs_all:
  assumes "\<forall>v \<in> set vs. \<exists>s. v = PStr s"
  shows "\<exists>ss. as_strs vs = Inr ss"
  using assms
proof (induction vs)
  case Nil
  show ?case by simp
next
  case (Cons v vs)
  then obtain s ss where "v = PStr s" "as_strs vs = Inr ss" by auto
  then show ?case by simp
qed

lemma combined_analysis_returns:
  assumes "\<forall>a \<in> set analyzed. has_key a ''llm_analysis'' \<longrightarrow>
             (\<exists>s. dict_get a ''llm_analysis'' PNone = PStr s)"
  shows "\<exists>text. combined_analysis analyzed = Inr text"
proof -
  have "\<forall>v \<in> set (map (\<lambda>a. dict_get a ''llm_analysis'' PNone)
            (filter (\<lambda>a. has_key a ''llm_analysis'') analyzed)). \<exists>s. v = PStr s"
    using assms by auto
  from as_strs_all [OF this] show ?thesis
    by (auto simp: combined_analysis_def py_join_def)
qed

lemma analyze_articles_shape:
  "\<exists>analyzed tr1. analyze_articles env items [] tr = (Inr analyzed, tr1) \<and>
     length analyzed = length items \<and>
     list_all2 (\<lambda>article a. \<exists>t. fst (analyze_single_article env article t) = Inr a \<and>
         (has_key a ''error'' \<longleftrightarrow> (\<exists>e. fst (article_body env article t) = Inl e)))
       items analyzed \<and>
     (\<forall>a \<in> set analyzed. (has_key a ''error'' \<longrightarrow> \<not> has_key a ''llm_analysis'') \<and>
         (has_key a ''llm_analysis'' \<longrightarrow> (\<exists>s. dict_get a ''llm_analysis'' PNone = PStr s)))"
proof -
  from analyze_articles_acc [of env items "[]" tr] obtain recs tr1 where
    r: "analyze_articles env items [] tr = (Inr recs, tr1)"
    and l: "list_all2 (\<lambda>article a. \<exists>t. fst (analyze_single_article env article t) = Inr a) items recs"
    by auto
  from l have len: "length recs = length items"
    by (simp add: list_all2_lengthD)
  from l have l2: "list_all2 (\<lambda>article a. \<exists>t. fst (analyze_single_article env article t) = Inr a \<and>
         (has_key a ''error'' \<longleftrightarrow> (\<exists>e. fst (article_body env article t) = Inl e))) items recs"
    by (rule list_all2_mono) (use analyze_single_article_shape in blast)
  have ok: "\<forall>a \<in> set recs. (has_key a ''error'' \<longrightarrow> \<not> has_key a ''llm_analysis'') \<and>
         (has_key a ''llm_analysis'' \<longrightarrow> (\<exists>s. dict_get a ''llm_analysis'' PNone = PStr s))"
  proof
    fix a assume "a \<in> set recs"
    then obtain i where i: "i < length recs" "recs ! i = a"
      by (auto simp: in_set_conv_nth)
    with l have "\<exists>t. fst (analyze_single_article env (items ! i) t) = Inr a"
      by (auto simp: list_all2_conv_all_nth)
    then show "(has_key a ''error'' \<longrightarrow> \<not> has_key a ''llm_analysis'') \<and>
         (has_key a ''llm_analysis'' \<longrightarrow> (\<exists>s. dict_get a ''llm_analysis'' PNone = PStr s))"
      using analyze_single_article_shape by blast
  qed
  from r len l2 ok show ?thesis by blast
qed

lemma stub_env_sel:
  "llm_invoke stub_env tr sys human = Inr ''analysis''"
  "article_fetch stub_env tr url nlp =
     (if url = PStr ''bad'' then Inl (Exn ArticleException ''download failed'')
      else Inr stub_article)"
  "requests_get stub_env tr u ps =
     Inr (PDict [(''articles'',
            PList [stub_listing ''a1'', stub_listing ''bad'', stub_listing ''a3''])])"
  "search_tweets stub_env tr q = Inr [stub_status 1, stub_status 2]"
  "now stub_env tr = int (length tr)"
  "isoformat stub_env t = replicate (nat t) CHR ''t''"
  "strftime_ymd stub_env t = replicate (nat t) CHR ''d''"
  "py_str stub_env v = ''?''"
  "llm_parse_election_query stub_env tr query = Inr stub_params"
  "llm_analyze_content stub_env tr txt kind = Inr (PStr ''summary'')"
  "llm_generate_prediction stub_env tr analyses = Inr (PDict [(''confidence'', PFloat 0)])"
  by (simp_all add: stub_env_def)

lemma stub_single_ok:
  "u \<noteq> ''bad'' \<Longrightarrow> analyze_single_article stub_env [(''url'', PStr u)] t =
     (Inr (stub_analysis u),
      t @ [ArticleFetch (PStr u) True,
           LlmInvoke ARTICLE_SYSTEM (''Title: Title'' @ NL @ NL @ ''Content: Body'')])"
  by (simp add: analyze_single_article_def article_body_def dict_item_def fetch_article_def
      llm_call_def stub_env_def stub_article_def stub_analysis_def)

lemma stub_single_bad:
  "analyze_single_article stub_env [(''url'', PStr ''bad'')] t =
     (Inr [(''error'', PStr ''download failed''), (''url'', PStr ''bad'')],
      t @ [ArticleFetch (PStr ''bad'') True,
           Log ERROR [Lit ''Error analyzing article '', Val (PStr ''bad''), Lit '': '',
                      Lit ''download failed'']])"
  by (simp add: analyze_single_article_def article_body_def dict_item_def fetch_article_def
      llm_call_def stub_env_def dict_get_def log_event_def)

lemma five_analyzed:
  "fst (analyze_articles stub_env five_articles [] []) =
     Inr [stub_analysis ''a1'', stub_analysis ''a2'',
          [(''error'', PStr ''download failed''), (''url'', PStr ''bad'')],
          stub_analysis ''a4'', stub_analysis ''a5'']"
  by (simp add: five_articles_def stub_single_ok stub_single_bad)

section \<open>The item analyzer\<close>

text \<open>
  C2. The single-item analysis never raises: for every article and every behaviour of the
  downloader and of the model, \<open>_analyze_single_article\<close> returns a record, and the record
  has a \<open>url\<close>. Whenever the body of its \<open>try\<close> raises \<open>e\<close>, the record holds exactly the
  error text \<open>str(e)\<close> and the identifier \<open>article.get('url', 'unknown')\<close>.
\<close>

theorem analyze_single_article_never_raises:
  "\<exists>d tr1. analyze_single_article env article tr = (Inr d, tr1) \<and> has_key d ''url'' \<and>
     (\<forall>e tr2. article_body env article tr = (Inl e, tr2) \<longrightarrow>
        d = [(''error'', PStr (exn_str e)),
             (''url'', dict_get article ''url'' (PStr ''unknown''))])"
proof (cases "article_body env article tr")
  case (Pair r tr1)
  show ?thesis
  proof (cases r)
    case (Inl e)
    with Pair show ?thesis
      by (simp add: analyze_single_article_def has_key_def)
  next
    case (Inr d)
    with Pair article_body_ok [of env article tr d tr1] show ?thesis
      by (simp add: analyze_single_article_def)
  qed
qed

text \<open>An article without a \<open>url\<close> gives the identifier \<open>unknown\<close>; a failing model call
  gives the article's own \<open>url\<close>.\<close>

theorem analyze_single_article_never_raises_witness:
  "article_body down_env [(''link'', PStr ''a1'')] [] = (Inl (Exn KeyError (repr_key ''url'')), []) \<and>
   fst (analyze_single_article down_env [(''link'', PStr ''a1'')] []) =
     Inr [(''error'', PStr (repr_key ''url'')), (''url'', PStr ''unknown'')] \<and>
   article_body down_env [(''url'', PStr ''a1'')] [] =
     (Inl (Exn OtherError ''service unavailable''),
      [ArticleFetch (PStr ''a1'') True,
       LlmInvoke ARTICLE_SYSTEM (''Title: Title'' @ NL @ NL @ ''Content: Body'')]) \<and>
   fst (analyze_single_article down_env [(''url'', PStr ''a1'')] []) =
     Inr [(''error'', PStr ''service unavailable''), (''url'', PStr ''a1'')]"
proof -
  have b1: "article_body down_env [(''link'', PStr ''a1'')] [] = (Inl (Exn KeyError (repr_key ''url'')), [])"
    by (simp add: article_body_def dict_item_def)
  have b2: "article_body down_env [(''url'', PStr ''a1'')] [] =
     (Inl (Exn OtherError ''service unavailable''),
      [ArticleFetch (PStr ''a1'') True,
       LlmInvoke ARTICLE_SYSTEM (''Title: Title'' @ NL @ NL @ ''Content: Body'')])"
    by (simp add: article_body_def dict_item_def fetch_article_def llm_call_def down_env_def
        stub_env_def stub_article_def)
  from b1 analyze_single_article_never_raises [of down_env "[(''link'', PStr ''a1'')]" "[]"]
  have r1: "fst (analyze_single_article down_env [(''link'', PStr ''a1'')] []) =
     Inr [(''error'', PStr (repr_key ''url'')), (''url'', PStr ''unknown'')]"
    by (auto simp: dict_get_def)
  from b2 analyze_single_article_never_raises [of down_env "[(''url'', PStr ''a1'')]" "[]"]
  have r2: "fst (analyze_single_article down_env [(''url'', PStr ''a1'')] []) =
     Inr [(''error'', PStr ''service unavailable''), (''url'', PStr ''a1'')]"
    by (auto simp: dict_get_def)
  from b1 b2 r1 r2 show ?thesis by simp
qed

section \<open>Analysis and aggregation of a batch\<close>

text \<open>
  C3, as amended. For every sequence of raw items, the loop of \<open>analyze\<close> produces exactly
  one item analysis per item, in order, each the single-item analysis of its item, and it
  carries an \<open>error\<close> field exactly when that item's analysis failed. Whenever the
  meta-analysis model call returns, \<open>analyze\<close> returns an aggregate whose \<open>article_count\<close>
  is the input length, error records counted, and whose \<open>individual_analyses\<close> are those
  records; when that call raises, \<open>analyze\<close> raises the same exception.
\<close>

theorem news_analyze_one_analysis_per_item:
  "\<exists>analyzed tr1 combined.
     analyze_articles env news_data [] tr = (Inr analyzed, tr1) \<and>
     length analyzed = length news_data \<and>
     list_all2 (\<lambda>article a. \<exists>t. fst (analyze_single_article env article t) = Inr a \<and>
         (has_key a ''error'' \<longleftrightarrow> (\<exists>e. fst (article_body env article t) = Inl e)))
       news_data analyzed \<and>
     combined_analysis analyzed = Inr combined \<and>
     (\<forall>content. llm_invoke env tr1 META_SYSTEM combined = Inr content \<longrightarrow>
        fst (news_analyze env news_data tr) =
          Inr [(''meta_analysis'', PStr content),
               (''article_count'', PInt (int (length news_data))),
               (''individual_analyses'', PList (map PDict analyzed))]) \<and>
     (\<forall>e. llm_invoke env tr1 META_SYSTEM combined = Inl e \<longrightarrow>
        fst (news_analyze env news_data tr) = Inl e)"
proof -
  from analyze_articles_shape [of env news_data tr] obtain analyzed tr1 where
    r: "analyze_articles env news_data [] tr = (Inr analyzed, tr1)"
    and len: "length analyzed = length news_data"
    and l: "list_all2 (\<lambda>article a. \<exists>t. fst (analyze_single_article env article t) = Inr a \<and>
         (has_key a ''error'' \<longleftrightarrow> (\<exists>e. fst (article_body env article t) = Inl e)))
       news_data analyzed"
    and ok: "\<forall>a \<in> set analyzed. (has_key a ''error'' \<longrightarrow> \<not> has_key a ''llm_analysis'') \<and>
         (has_key a ''llm_analysis'' \<longrightarrow> (\<exists>s. dict_get a ''llm_analysis'' PNone = PStr s))"
    by blast
  from ok combined_analysis_returns [of analyzed] obtain combined where
    t: "combined_analysis analyzed = Inr combined" by blast
  have ok_case: "fst (news_analyze env news_data tr) =
          Inr [(''meta_analysis'', PStr content),
               (''article_count'', PInt (int (length news_data))),
               (''individual_analyses'', PList (map PDict analyzed))]"
    if "llm_invoke env tr1 META_SYSTEM combined = Inr content" for content
    using that r t len
    by (simp add: news_analyze_def aggregate_analysis_def fst_log_reraise llm_call_def)
  have err_case: "fst (news_analyze env news_data tr) = Inl e"
    if "llm_invoke env tr1 META_SYSTEM combined = Inl e" for e
    using that r t
    by (simp add: news_analyze_def aggregate_analysis_def fst_log_reraise llm_call_def)
  from r len l t ok_case err_case show ?thesis by blast
qed

text \<open>Five items, the third failing: the count is 5 and one record carries an error.\<close>

theorem news_analyze_one_analysis_per_item_witness:
  "\<exists>analyzed.
     fst (news_analyze stub_env five_articles []) =
       Inr [(''meta_analysis'', PStr ''analysis''),
            (''article_count'', PInt 5),
            (''individual_analyses'', PList (map PDict analyzed))] \<and>
     length analyzed = 5 \<and>
     filter (\<lambda>a. has_key a ''error'') analyzed =
       [[(''error'', PStr ''download failed''), (''url'', PStr ''bad'')]]"
proof -
  from news_analyze_one_analysis_per_item [of stub_env five_articles "[]"]
  obtain analyzed tr1 combined where
    r: "analyze_articles stub_env five_articles [] [] = (Inr analyzed, tr1)"
    and len: "length analyzed = length five_articles"
    and ok: "\<forall>content. llm_invoke stub_env tr1 META_SYSTEM combined = Inr content \<longrightarrow>
        fst (news_analyze stub_env five_articles []) =
          Inr [(''meta_analysis'', PStr content),
               (''article_count'', PInt (int (length five_articles))),
               (''individual_analyses'', PList (map PDict analyzed))]"
    by blast
  have "llm_invoke stub_env tr1 META_SYSTEM combined = Inr ''analysis''"
    by (simp add: stub_env_def)
  with ok have res: "fst (news_analyze stub_env five_articles []) =
          Inr [(''meta_analysis'', PStr ''analysis''),
               (''article_count'', PInt (int (length five_articles))),
               (''individual_analyses'', PList (map PDict analyzed))]"
    by blast
  from r five_analyzed have a: "analyzed =
     [stub_analysis ''a1'', stub_analysis ''a2'',
          [(''error'', PStr ''download failed''), (''url'', PStr ''bad'')],
          stub_analysis ''a4'', stub_analysis ''a5'']"
    by simp
  have f: "filter (\<lambda>a. has_key a ''error'') analyzed =
       [[(''error'', PStr ''download failed''), (''url'', PStr ''bad'')]]"
    unfolding a by (simp add: has_key_def stub_analysis_def)
  from res len f show ?thesis
    by (intro exI [of _ analyzed]) (simp add: five_articles_def)
qed

text \<open>C3 as stated fails: with the text-understanding service down, the one item becomes an
  error record, the meta-analysis call raises too and \<open>analyze\<close> re-raises instead of
  returning an aggregate.\<close>

theorem news_analyze_counterexample:
  "fst (news_analyze down_env [[(''url'', PStr ''a1'')]] []) =
     Inl (Exn OtherError ''service unavailable'')"
  by (simp add: news_analyze_def aggregate_analysis_def fst_log_reraise llm_call_def
      analyze_single_article_def article_body_def dict_item_def fetch_article_def
      down_env_def stub_env_def combined_analysis_def has_key_def py_join_def)



section \<open>The social-media analyzer\<close>

text \<open>
  C1. With zero tweets \<open>_analyze_twitter\<close> always raises: after the model call, \<open>min\<close> over
  the empty sequence of \<open>created_at\<close> is a \<open>ValueError\<close>, which \<open>analyze\<close> re-raises. The
  news aggregation returns a count of 0 on the empty input.
\<close>

theorem social_analyze_no_tweets_raises:
  "(\<exists>e. fst (analyze_twitter env (PList []) tr) = Inl e) \<and>
   fst (social_analyze stub_env [(''twitter'', PList [])] []) =
     Inl (Exn ValueError ''min() arg is an empty sequence'') \<and>
   fst (social_analyze stub_env [] []) =
     Inl (Exn ValueError ''min() arg is an empty sequence'') \<and>
   fst (news_analyze stub_env [] []) =
     Inr [(''meta_analysis'', PStr ''analysis''), (''article_count'', PInt 0),
          (''individual_analyses'', PList [])]"
proof -
  have a: "\<exists>e. fst (analyze_twitter env (PList []) tr) = Inl e"
    by (cases "llm_invoke env tr TWITTER_SYSTEM (''Tweets:'' @ NL)")
       (simp_all add: analyze_twitter_def fst_log_reraise py_join_def llm_call_def
          twitter_result_def)
  have b: "fst (social_analyze stub_env [(''twitter'', PList [])] []) =
     Inl (Exn ValueError ''min() arg is an empty sequence'')"
    by (simp add: social_analyze_def analyze_twitter_def log_reraise_def py_join_def llm_call_def
          twitter_result_def dict_get_def stub_env_def)
  have c: "fst (social_analyze stub_env [] []) =
     Inl (Exn ValueError ''min() arg is an empty sequence'')"
    by (simp add: social_analyze_def analyze_twitter_def log_reraise_def py_join_def llm_call_def
          twitter_result_def dict_get_def stub_env_def)
  have d: "fst (news_analyze stub_env [] []) =
     Inr [(''meta_analysis'', PStr ''analysis''), (''article_count'', PInt 0),
          (''individual_analyses'', PList [])]"
    by (simp add: news_analyze_def aggregate_analysis_def log_reraise_def py_join_def llm_call_def
          combined_analysis_def stub_env_def)
  from a b c d show ?thesis by blast
qed

text \<open>
  C10. Whenever the social-media analysis returns a result, its \<open>overall_sentiment\<close> is
  \<open>0.0\<close>, whatever the tweets and the model's analysis of them.
\<close>

theorem overall_sentiment_is_zero:
  assumes "fst (social_analyze env social_data tr) = Inr result"
  shows "dict_item result ''overall_sentiment'' = Inr (PFloat 0)"
proof (cases "analyze_twitter env (dict_get social_data ''twitter'' (PList [])) tr")
  case (Pair r tr1)
  with assms show ?thesis
    by (cases r; cases "clock_read env tr1")
       (auto simp: social_analyze_def fst_log_reraise dict_item_def
          calculate_overall_sentiment_def)
qed

theorem overall_sentiment_is_zero_witness:
  "fst (social_analyze stub_env stub_social []) =
     Inr [(''timestamp'', PStr ''t''),
          (''twitter_analysis'',
             PDict [(''sentiment_analysis'', PStr ''analysis''),
                    (''tweet_count'', PInt 2),
                    (''time_period'', PDict [(''start'', PTime 101), (''end'', PTime 102)])]),
          (''overall_sentiment'', PFloat 0)] \<and>
   dict_item [(''timestamp'', PStr ''t''),
          (''twitter_analysis'',
             PDict [(''sentiment_analysis'', PStr ''analysis''),
                    (''tweet_count'', PInt 2),
                    (''time_period'', PDict [(''start'', PTime 101), (''end'', PTime 102)])]),
          (''overall_sentiment'', PFloat 0)] ''overall_sentiment'' = Inr (PFloat 0)"
proof -
  have r: "fst (social_analyze stub_env stub_social []) =
     Inr [(''timestamp'', PStr ''t''),
          (''twitter_analysis'',
             PDict [(''sentiment_analysis'', PStr ''analysis''),
                    (''tweet_count'', PInt 2),
                    (''time_period'', PDict [(''start'', PTime 101), (''end'', PTime 102)])]),
          (''overall_sentiment'', PFloat 0)]"
    by (simp add: social_analyze_def analyze_twitter_def log_reraise_def py_join_def llm_call_def
          twitter_result_def dict_get_def stub_env_def stub_social_def tweet_dict_def
          stub_status_def dict_item_def py_lt_def clock_read_def
          calculate_overall_sentiment_def)
  from r overall_sentiment_is_zero [OF r] show ?thesis by simp
qed

section \<open>News collection\<close>




lemma stub_news_query: "news_query stub_env stub_params = Inr stub_query"
  by (simp add: news_query_def candidate_terms_def place_terms_def stub_params_def dict_get_def
      py_join_def fmt_def stub_query_def)

lemma stub_collect_news:
  "collect_news stub_env stub_params [] =
     (Inr [stub_item ''a1'', stub_item ''a3''],
      [ClockRead, HttpGet NEWS_URL stub_params,
       ArticleFetch (PStr ''a1'') False,
       ArticleFetch (PStr ''bad'') False,
       Log WARNING [Lit ''Error processing article '', Val (PStr ''bad''), Lit '': '',
                    Lit ''download failed''],
       ArticleFetch (PStr ''a3'') False])"
  by (simp add: collect_news_def stub_news_query clock_read_def http_get_def log_reraise_def
      stub_env_sel stub_listing_def dict_get_def fetch_article_def processed_article_def
      dict_item_def stub_article_def log_event_def stub_item_def)






text \<open>
  C5. The news request does not carry the search expression or the date window: line 115
  passes \<open>params\<close>, the election parameters, which have neither a \<open>q\<close> nor a \<open>from\<close> key;
  the dictionary \<open>api_params\<close> that holds both is never sent.
\<close>

theorem collect_news_sends_election_params:
  "news_query stub_env stub_params = Inr stub_query \<and>
   filter is_http (snd (collect_news stub_env stub_params [])) = [HttpGet NEWS_URL stub_params] \<and>
   news_api_params stub_env PNone stub_query (now stub_env []) =
     [(''q'', PStr stub_query), (''from'', PStr (strftime_ymd stub_env (0 - 7 * 86400))),
      (''sortBy'', PStr ''relevancy''), (''language'', PStr ''en''), (''apiKey'', PNone)] \<and>
   \<not> has_key stub_params ''q'' \<and> \<not> has_key stub_params ''from''"
proof -
  have a: "filter is_http (snd (collect_news stub_env stub_params [])) = [HttpGet NEWS_URL stub_params]"
    by (simp add: stub_collect_news)
  have b: "news_api_params stub_env PNone stub_query (now stub_env []) =
     [(''q'', PStr stub_query), (''from'', PStr (strftime_ymd stub_env (0 - 7 * 86400))),
      (''sortBy'', PStr ''relevancy''), (''language'', PStr ''en''), (''apiKey'', PNone)]"
    by (simp add: news_api_params_def stub_env_sel)
  have c: "\<not> has_key stub_params ''q'' \<and> \<not> has_key stub_params ''from''"
    by (simp add: has_key_def stub_params_def)
  from stub_news_query a b c show ?thesis by simp
qed

section \<open>The pipeline\<close>

lemma det_sel:
  "llm_invoke (with_clock (deterministic env) c) tr = llm_invoke env []"
  "article_fetch (with_clock (deterministic env) c) tr = article_fetch env []"
  "requests_get (with_clock (deterministic env) c) tr = requests_get env []"
  "search_tweets (with_clock (deterministic env) c) tr = search_tweets env []"
  "llm_parse_election_query (with_clock (deterministic env) c) tr = llm_parse_election_query env []"
  "llm_analyze_content (with_clock (deterministic env) c) tr = llm_analyze_content env []"
  "llm_generate_prediction (with_clock (deterministic env) c) tr = llm_generate_prediction env []"
  "isoformat (with_clock (deterministic env) c) = isoformat env"
  "py_str (with_clock (deterministic env) c) = py_str env"
  by (simp_all add: with_clock_def deterministic_def)

lemma now_with_clock: "now (with_clock env c) = c"
  by (simp add: with_clock_def)

lemma det_fmt: "fmt (with_clock (deterministic env) c) v = fmt env v"
  by (cases v) (simp_all add: fmt_def det_sel)

lemma det_candidate_terms:
  "candidate_terms (with_clock (deterministic env) c) params = candidate_terms env params"
  by (simp add: candidate_terms_def det_fmt Let_def cong: if_cong sum.case_cong)

lemma det_queries:
  "news_query (with_clock (deterministic env) c) params = news_query env params"
  "twitter_query (with_clock (deterministic env) c) params = twitter_query env params"
  by (simp_all add: news_query_def twitter_query_def det_candidate_terms)

lemma det_process_articles:
  "fst (process_articles (with_clock (deterministic env) c1) arts acc tr1) =
   fst (process_articles (with_clock (deterministic env) c2) arts acc tr2)"
proof (induction arts arbitrary: acc tr1 tr2)
  case Nil
  show ?case by simp
next
  case (Cons a rest)
  show ?case
  proof (cases "py_getitem a ''url''")
    case (Inl e)
    then show ?thesis by simp
  next
    case (Inr u)
    show ?thesis
    proof (cases "article_fetch env [] u False")
      case (Inl e)
      with Inr Cons.IH show ?thesis
        by (simp add: fetch_article_def det_sel)
    next
      case fetched: (Inr obj)
      with Inr Cons.IH show ?thesis
        by (cases "processed_article a obj") (simp_all add: fetch_article_def det_sel)
    qed
  qed
qed

lemma det_collect_news:
  "fst (collect_news (with_clock (deterministic env) c1) params tr1) =
   fst (collect_news (with_clock (deterministic env) c2) params tr2)"
proof (cases "news_query env params")
  case (Inl e)
  then show ?thesis
    by (simp add: collect_news_def fst_log_reraise det_queries)
next
  case q: (Inr query)
  show ?thesis
  proof (cases "requests_get env [] NEWS_URL params")
    case (Inl e)
    with q show ?thesis
      by (simp add: collect_news_def fst_log_reraise det_queries clock_read_def http_get_def det_sel)
  next
    case b: (Inr body)
    show ?thesis
    proof (cases "py_get body ''articles'' (PList [])")
      case (Inl e)
      with q b show ?thesis
        by (simp add: collect_news_def fst_log_reraise det_queries clock_read_def http_get_def det_sel)
    next
      case a: (Inr articles)
      show ?thesis
      proof (cases "py_iter articles")
        case (Inl e)
        with q b a show ?thesis
          by (simp add: collect_news_def fst_log_reraise det_queries clock_read_def http_get_def det_sel)
      next
        case (Inr arts)
        with q b a det_process_articles [of env c1 arts "[]" _ c2] show ?thesis
          by (simp add: collect_news_def fst_log_reraise det_queries clock_read_def http_get_def det_sel)
      qed
    qed
  qed
qed

lemma det_collect_twitter:
  "fst (collect_twitter (with_clock (deterministic env) c1) params tr1) =
   fst (collect_twitter (with_clock (deterministic env) c2) params tr2)"
  by (cases "twitter_query env params"; cases "search_tweets env [] (projr (twitter_query env params))")
     (simp_all add: collect_twitter_def fst_log_reraise det_queries cursor_items_def det_sel)

lemma det_collect_social_media:
  "fst (collect_social_media (with_clock (deterministic env) c1) params tr1) =
   fst (collect_social_media (with_clock (deterministic env) c2) params tr2)"
proof -
  obtain r1 t1 where 1: "collect_twitter (with_clock (deterministic env) c1) params tr1 = (r1, t1)"
    by (cases "collect_twitter (with_clock (deterministic env) c1) params tr1")
  obtain r2 t2 where 2: "collect_twitter (with_clock (deterministic env) c2) params tr2 = (r2, t2)"
    by (cases "collect_twitter (with_clock (deterministic env) c2) params tr2")
  from 1 2 det_collect_twitter [of env c1 params tr1 c2 tr2] have "r1 = r2" by simp
  with 1 2 show ?thesis
    by (auto simp: collect_social_media_def fst_log_reraise split: sum.splits)
qed

lemma det_collect:
  "(\<exists>e. fst (collect (with_clock (deterministic env) c1) params tr1) = Inl e \<and>
        fst (collect (with_clock (deterministic env) c2) params tr2) = Inl e) \<or>
   (\<exists>ts1 ts2 rest.
        fst (collect (with_clock (deterministic env) c1) params tr1) =
          Inr ((''timestamp'', ts1) # rest) \<and>
        fst (collect (with_clock (deterministic env) c2) params tr2) =
          Inr ((''timestamp'', ts2) # rest))"
proof -
  let ?E1 = "with_clock (deterministic env) c1" and ?E2 = "with_clock (deterministic env) c2"
  obtain n1 t1 where n1: "collect_news ?E1 params tr1 = (n1, t1)"
    by (cases "collect_news ?E1 params tr1")
  obtain n2 t2 where n2: "collect_news ?E2 params tr2 = (n2, t2)"
    by (cases "collect_news ?E2 params tr2")
  from n1 n2 det_collect_news [of env c1 params tr1 c2 tr2] have n: "n2 = n1" by simp
  show ?thesis
  proof (cases n1)
    case (Inl e)
    with n n1 n2 show ?thesis
      by (simp add: collect_def fst_log_reraise)
  next
    case news: (Inr news_data)
    obtain s1 u1 where s1: "collect_social_media ?E1 params t1 = (s1, u1)"
      by (cases "collect_social_media ?E1 params t1")
    obtain s2 u2 where s2: "collect_social_media ?E2 params t2 = (s2, u2)"
      by (cases "collect_social_media ?E2 params t2")
    from s1 s2 det_collect_social_media [of env c1 params t1 c2 t2] have s: "s2 = s1" by simp
    show ?thesis
    proof (cases s1)
      case (Inl e)
      with n n1 n2 news s s1 s2 show ?thesis
        by (simp add: collect_def fst_log_reraise)
    next
      case (Inr social_data)
      with n n1 n2 news s s1 s2 show ?thesis
        by (simp add: collect_def fst_log_reraise clock_read_def)
    qed
  qed
qed

lemma det_analyze_collected:
  "(\<exists>e. fst (analyze_collected (with_clock (deterministic env) c1) params
              ((''timestamp'', ts1) # raw) tr1) = Inl e \<and>
        fst (analyze_collected (with_clock (deterministic env) c2) params
              ((''timestamp'', ts2) # raw) tr2) = Inl e) \<or>
   (\<exists>t1 t2 rest.
        fst (analyze_collected (with_clock (deterministic env) c1) params
              ((''timestamp'', ts1) # raw) tr1) = Inr ((''timestamp'', t1) # rest) \<and>
        fst (analyze_collected (with_clock (deterministic env) c2) params
              ((''timestamp'', ts2) # raw) tr2) = Inr ((''timestamp'', t2) # rest))"
  by (auto simp: analyze_collected_def dict_item_def handler_analyze_def handler_predict_def
      clock_read_def det_sel split: sum.splits option.splits)

lemma det_parse:
  "fst (parse_election_query (with_clock (deterministic env) c1) query tr1) =
   fst (parse_election_query (with_clock (deterministic env) c2) query tr2)"
  by (cases "llm_parse_election_query env [] query")
     (simp_all add: parse_election_query_def fst_log_reraise handler_parse_def det_sel)

lemma stub_query_eval:
  "news_query env stub_params = Inr stub_query"
  "twitter_query env stub_params =
     Inr (''presidential USA '' @ DQ @ ''A'' @ DQ @ '' '' @ DQ @ ''B'' @ DQ @ '' -filter:retweets'')"
  by (simp_all add: news_query_def twitter_query_def candidate_terms_def place_terms_def
      stub_params_def dict_get_def py_join_def fmt_def stub_query_def)

lemma stub_det_run:
  "fst (run_analysis (with_clock (deterministic stub_env) (\<lambda>tr. k)) query tr) =
     Inr ((''timestamp'', PStr (replicate (nat k) CHR ''t'')) # stub_run_rest)"
  by (simp add: run_analysis_def parse_election_query_def handler_parse_def log_reraise_def
      collect_def collect_news_def collect_social_media_def collect_twitter_def cursor_items_def
      stub_query_eval clock_read_def http_get_def fetch_article_def
      processed_article_def dict_item_def dict_get_def log_event_def
      analyze_collected_def joined_texts_def py_join_def handler_analyze_def handler_predict_def
      det_sel stub_env_sel stub_listing_def stub_article_def stub_item_def stub_run_rest_def
      tweet_dict_def stub_status_def
      now_with_clock)

text \<open>
  C9. With deterministic collaborators, two runs on the same query return the same
  exception, or two results that differ in the \<open>timestamp\<close> field only, whatever the
  clocks and whatever happened before each run.
\<close>

theorem run_analysis_deterministic_except_timestamp:
  "(\<exists>e. fst (run_analysis (with_clock (deterministic env) c1) query tr1) = Inl e \<and>
        fst (run_analysis (with_clock (deterministic env) c2) query tr2) = Inl e) \<or>
   (\<exists>t1 t2 rest.
        fst (run_analysis (with_clock (deterministic env) c1) query tr1) =
          Inr ((''timestamp'', t1) # rest) \<and>
        fst (run_analysis (with_clock (deterministic env) c2) query tr2) =
          Inr ((''timestamp'', t2) # rest))"
proof -
  let ?E1 = "with_clock (deterministic env) c1" and ?E2 = "with_clock (deterministic env) c2"
  let ?start = "log_event INFO [Lit ''Starting data collection...'']"
  obtain p1 u1 where p1: "parse_election_query ?E1 query tr1 = (p1, u1)"
    by (cases "parse_election_query ?E1 query tr1")
  obtain p2 u2 where p2: "parse_election_query ?E2 query tr2 = (p2, u2)"
    by (cases "parse_election_query ?E2 query tr2")
  from p1 p2 det_parse [of env c1 query tr1 c2 tr2] have p: "p2 = p1" by simp
  show ?thesis
  proof (cases p1)
    case (Inl e)
    with p p1 p2 show ?thesis
      by (simp add: run_analysis_def fst_log_reraise)
  next
    case params: (Inr election_params)
    obtain r1 v1 where r1: "collect ?E1 election_params (?start u1) = (r1, v1)"
      by (cases "collect ?E1 election_params (?start u1)")
    obtain r2 v2 where r2: "collect ?E2 election_params (?start u2) = (r2, v2)"
      by (cases "collect ?E2 election_params (?start u2)")
    from det_collect [of env c1 election_params "?start u1" c2 "?start u2"] r1 r2
    consider e where "r1 = Inl e" "r2 = Inl e"
      | ts1 ts2 raw where "r1 = Inr ((''timestamp'', ts1) # raw)" "r2 = Inr ((''timestamp'', ts2) # raw)"
      by auto
    then show ?thesis
    proof cases
      case 1
      with p p1 p2 params r1 r2 show ?thesis
        by (simp add: run_analysis_def fst_log_reraise)
    next
      case 2
      with p p1 p2 params r1 r2
        det_analyze_collected [of env c1 election_params ts1 raw v1 c2 ts2 v2]
      show ?thesis
        by (simp add: run_analysis_def fst_log_reraise)
    qed
  qed
qed

text \<open>Two runs on the stubs at different times: the same result but for the timestamp.\<close>

theorem run_analysis_deterministic_except_timestamp_witness:
  "fst (run_analysis (with_clock (deterministic stub_env) (\<lambda>tr. 1)) ''who wins'' []) =
     Inr ((''timestamp'', PStr ''t'') # stub_run_rest) \<and>
   fst (run_analysis (with_clock (deterministic stub_env) (\<lambda>tr. 2)) ''who wins'' [ClockRead]) =
     Inr ((''timestamp'', PStr ''tt'') # stub_run_rest)"
proof -
  have r1: "fst (run_analysis (with_clock (deterministic stub_env) (\<lambda>tr. 1)) ''who wins'' []) =
     Inr ((''timestamp'', PStr (replicate (nat 1) CHR ''t'')) # stub_run_rest)"
    by (rule stub_det_run)
  have r2: "fst (run_analysis (with_clock (deterministic stub_env) (\<lambda>tr. 2)) ''who wins'' [ClockRead]) =
     Inr ((''timestamp'', PStr (replicate (nat 2) CHR ''t'')) # stub_run_rest)"
    by (rule stub_det_run)
  have n: "replicate (nat 1) CHR ''t'' = ''t''" "replicate (nat 2) CHR ''t'' = ''tt''"
    by (simp_all add: numeral_2_eq_2)
  from run_analysis_deterministic_except_timestamp
         [of stub_env "\<lambda>tr. 1" "''who wins''" "[]" "\<lambda>tr. 2" "[ClockRead]"] r1 r2 n
  show ?thesis by simp
qed

lemma run_analysis_parse_failure:
  assumes "llm_parse_election_query env
             (log_event INFO [Lit ''Parsing query: '', Val (PStr query)] tr) query = Inl e"
  shows "fst (run_analysis env query tr) = Inl e"
  using assms
  by (simp add: run_analysis_def parse_election_query_def handler_parse_def fst_log_reraise
      log_reraise_def)

lemma run_analysis_collect_failure:
  assumes "parse_election_query env query tr = (Inr p, tr1)"
    and "collect env p (log_event INFO [Lit ''Starting data collection...''] tr1) = (Inl e, tr2)"
  shows "fst (run_analysis env query tr) = Inl e"
  using assms
  by (simp add: run_analysis_def fst_log_reraise)

lemma joined_texts_empty: "joined_texts (PList []) = Inr []"
  by (simp add: joined_texts_def py_join_def)

lemma run_analysis_zero_items:
  assumes "parse_election_query env query tr = (Inr p, tr1)"
    and "collect env p (log_event INFO [Lit ''Starting data collection...''] tr1) = (Inr raw, tr2)"
    and "dict_item raw ''news'' = Inr (PList [])"
    and "dict_item raw ''social'' = Inr social"
    and "py_getitem social ''twitter'' = Inr (PList [])"
    and "\<forall>t. llm_analyze_content env t [] ''news article'' = Inr a1"
    and "\<forall>t. llm_analyze_content env t [] ''social media'' = Inr a2"
    and "\<forall>t. llm_generate_prediction env t [a1, a2] = Inr pr"
  shows "\<exists>ts. fst (run_analysis env query tr) =
           Inr [(''timestamp'', PStr ts),
                (''query_parameters'', PDict p),
                (''news_analysis'', PDict [(''articles'', PList []), (''analysis'', a1)]),
                (''social_analysis'', PDict [(''tweets'', PList []), (''analysis'', a2)]),
                (''predictions'', pr)]"
  using assms
  by (simp add: run_analysis_def fst_log_reraise analyze_collected_def joined_texts_empty
      handler_analyze_def handler_predict_def clock_read_def)

lemma empty_env_sel:
  "article_fetch empty_env tr url nlp = article_fetch stub_env tr url nlp"
  "requests_get empty_env tr u ps = Inr (PDict [(''articles'', PList [])])"
  "search_tweets empty_env tr q = Inr []"
  "now empty_env tr = int (length tr)"
  "isoformat empty_env = isoformat stub_env"
  "llm_parse_election_query empty_env tr query = Inr stub_params"
  "llm_analyze_content empty_env tr txt kind = Inr (PStr ''summary'')"
  "llm_generate_prediction empty_env tr analyses = Inr (PDict [(''confidence'', PFloat 0)])"
  by (simp_all add: empty_env_def stub_env_def)

lemma offline_env_sel:
  "requests_get offline_env tr u ps = Inl (Exn OtherError ''connection refused'')"
  "now offline_env tr = int (length tr)"
  "llm_parse_election_query offline_env tr query = Inr stub_params"
  by (simp_all add: offline_env_def stub_env_def)

lemma noparse_env_sel:
  "llm_parse_election_query noparse_env tr query = Inl (Exn ValueError ''no election found'')"
  by (simp add: noparse_env_def)

lemma stub_parse:
  "llm_parse_election_query env
      (log_event INFO [Lit ''Parsing query: '', Val (PStr query)] tr) query = Inr stub_params \<Longrightarrow>
   parse_election_query env query tr =
     (Inr stub_params,
      tr @ [Log INFO [Lit ''Parsing query: '', Val (PStr query)], ParseQuery query,
            Log INFO [Lit ''Extracted parameters: '', Val (PDict stub_params)]])"
  by (simp add: parse_election_query_def handler_parse_def log_reraise_def log_event_def)

lemma empty_collect:
  "\<exists>ts tr2. collect empty_env stub_params tr =
     (Inr [(''timestamp'', PStr ts), (''parameters'', PDict stub_params),
           (''news'', PList []),
           (''social'', PDict [(''twitter'', PList []), (''parameters'', PDict stub_params)])],
      tr2)"
  by (simp add: collect_def collect_news_def collect_social_media_def collect_twitter_def
      cursor_items_def stub_query_eval clock_read_def http_get_def log_reraise_def
      dict_get_def empty_env_sel)

lemma offline_collect:
  "\<exists>tr2. collect offline_env stub_params tr = (Inl (Exn OtherError ''connection refused''), tr2)"
  by (simp add: collect_def collect_news_def stub_query_eval clock_read_def http_get_def
      log_reraise_def offline_env_sel)

text \<open>
  C7, as amended. A failure to parse the query is fatal to the run: \<open>run_analysis\<close> raises
  the parser's exception. So is an exception raised by the collection. A collection that
  returns zero news items and zero tweets is not: when the handler's calls answer, the run
  goes on and returns a result whose lists of articles and tweets are empty.
\<close>

theorem run_analysis_fatal_only_on_exceptions:
  "(\<forall>e. llm_parse_election_query env
           (log_event INFO [Lit ''Parsing query: '', Val (PStr query)] tr) query = Inl e \<longrightarrow>
        fst (run_analysis env query tr) = Inl e) \<and>
   (\<forall>p tr1 e tr2.
        parse_election_query env query tr = (Inr p, tr1) \<and>
        collect env p (log_event INFO [Lit ''Starting data collection...''] tr1) = (Inl e, tr2) \<longrightarrow>
        fst (run_analysis env query tr) = Inl e) \<and>
   (\<forall>p tr1 raw tr2 social a1 a2 pr.
        parse_election_query env query tr = (Inr p, tr1) \<and>
        collect env p (log_event INFO [Lit ''Starting data collection...''] tr1) = (Inr raw, tr2) \<and>
        dict_item raw ''news'' = Inr (PList []) \<and>
        dict_item raw ''social'' = Inr social \<and>
        py_getitem social ''twitter'' = Inr (PList []) \<and>
        (\<forall>t. llm_analyze_content env t [] ''news article'' = Inr a1) \<and>
        (\<forall>t. llm_analyze_content env t [] ''social media'' = Inr a2) \<and>
        (\<forall>t. llm_generate_prediction env t [a1, a2] = Inr pr) \<longrightarrow>
        (\<exists>ts. fst (run_analysis env query tr) =
           Inr [(''timestamp'', PStr ts),
                (''query_parameters'', PDict p),
                (''news_analysis'', PDict [(''articles'', PList []), (''analysis'', a1)]),
                (''social_analysis'', PDict [(''tweets'', PList []), (''analysis'', a2)]),
                (''predictions'', pr)]))"
proof (intro conjI allI impI)
  fix e
  assume "llm_parse_election_query env
           (log_event INFO [Lit ''Parsing query: '', Val (PStr query)] tr) query = Inl e"
  then show "fst (run_analysis env query tr) = Inl e"
    by (rule run_analysis_parse_failure)
next
  fix p tr1 e tr2
  assume "parse_election_query env query tr = (Inr p, tr1) \<and>
        collect env p (log_event INFO [Lit ''Starting data collection...''] tr1) = (Inl e, tr2)"
  then show "fst (run_analysis env query tr) = Inl e"
    using run_analysis_collect_failure [of env query tr p tr1 e tr2] by simp
next
  fix p tr1 raw tr2 social a1 a2 pr
  assume "parse_election_query env query tr = (Inr p, tr1) \<and>
        collect env p (log_event INFO [Lit ''Starting data collection...''] tr1) = (Inr raw, tr2) \<and>
        dict_item raw ''news'' = Inr (PList []) \<and>
        dict_item raw ''social'' = Inr social \<and>
        py_getitem social ''twitter'' = Inr (PList []) \<and>
        (\<forall>t. llm_analyze_content env t [] ''news article'' = Inr a1) \<and>
        (\<forall>t. llm_analyze_content env t [] ''social media'' = Inr a2) \<and>
        (\<forall>t. llm_generate_prediction env t [a1, a2] = Inr pr)"
  then show "\<exists>ts. fst (run_analysis env query tr) =
           Inr [(''timestamp'', PStr ts),
                (''query_parameters'', PDict p),
                (''news_analysis'', PDict [(''articles'', PList []), (''analysis'', a1)]),
                (''social_analysis'', PDict [(''tweets'', PList []), (''analysis'', a2)]),
                (''predictions'', pr)]"
    using run_analysis_zero_items [of env query tr p tr1 raw tr2 social a1 a2 pr] by simp
qed

text \<open>A parser that fails, a news API that cannot be reached, and sources that find
  nothing.\<close>

theorem run_analysis_fatal_only_on_exceptions_witness:
  "fst (run_analysis noparse_env ''who wins'' []) = Inl (Exn ValueError ''no election found'') \<and>
   fst (run_analysis offline_env ''who wins'' []) = Inl (Exn OtherError ''connection refused'') \<and>
   (\<exists>ts. fst (run_analysis empty_env ''who wins'' []) =
      Inr ((''timestamp'', PStr ts) # empty_run_rest))"
proof -
  let ?q = "''who wins''"
  let ?tr1 = "[] @ [Log INFO [Lit ''Parsing query: '', Val (PStr ?q)], ParseQuery ?q,
            Log INFO [Lit ''Extracted parameters: '', Val (PDict stub_params)]]"
  let ?start = "log_event INFO [Lit ''Starting data collection...''] ?tr1"
  have a: "fst (run_analysis noparse_env ?q []) = Inl (Exn ValueError ''no election found'')"
    using run_analysis_fatal_only_on_exceptions [of noparse_env ?q "[]"]
    by (simp add: noparse_env_sel)
  have p2: "parse_election_query offline_env ?q [] = (Inr stub_params, ?tr1)"
    by (rule stub_parse) (simp add: offline_env_sel)
  from offline_collect [of ?start] obtain tr2 where
    c2: "collect offline_env stub_params ?start = (Inl (Exn OtherError ''connection refused''), tr2)"
    by blast
  have b: "fst (run_analysis offline_env ?q []) = Inl (Exn OtherError ''connection refused'')"
    using run_analysis_fatal_only_on_exceptions [of offline_env ?q "[]"] p2 c2
    by blast
  have p3: "parse_election_query empty_env ?q [] = (Inr stub_params, ?tr1)"
    by (rule stub_parse) (simp add: empty_env_sel)
  from empty_collect [of ?start] obtain ts0 tr3 where
    c3: "collect empty_env stub_params ?start =
     (Inr [(''timestamp'', PStr ts0), (''parameters'', PDict stub_params),
           (''news'', PList []),
           (''social'', PDict [(''twitter'', PList []), (''parameters'', PDict stub_params)])],
      tr3)"
    by blast
  let ?raw = "[(''timestamp'', PStr ts0), (''parameters'', PDict stub_params),
           (''news'', PList []),
           (''social'', PDict [(''twitter'', PList []), (''parameters'', PDict stub_params)])]"
  let ?social = "PDict [(''twitter'', PList []), (''parameters'', PDict stub_params)]"
  have n3: "dict_item ?raw ''news'' = Inr (PList [])"
    and s3: "dict_item ?raw ''social'' = Inr ?social"
    and t3: "py_getitem ?social ''twitter'' = Inr (PList [])"
    by (simp_all add: dict_item_def)
  have l3: "\<forall>t. llm_analyze_content empty_env t [] ''news article'' = Inr (PStr ''summary'')"
    "\<forall>t. llm_analyze_content empty_env t [] ''social media'' = Inr (PStr ''summary'')"
    "\<forall>t. llm_generate_prediction empty_env t [PStr ''summary'', PStr ''summary''] =
          Inr (PDict [(''confidence'', PFloat 0)])"
    by (simp_all add: empty_env_sel)
  have c: "\<exists>ts. fst (run_analysis empty_env ?q []) = Inr ((''timestamp'', PStr ts) # empty_run_rest)"
    using run_analysis_fatal_only_on_exceptions [of empty_env ?q "[]"] p3 c3 n3 s3 t3 l3
    unfolding empty_run_rest_def by blast
  from a b c show ?thesis by blast
qed

text \<open>C7 as stated fails: with zero items from every source the run returns a result.\<close>

theorem run_analysis_counterexample:
  "fst (run_analysis empty_env ''who wins'' []) =
     Inr ((''timestamp'', PStr ''tttttttttttttt'') # empty_run_rest)"
  by (simp add: run_analysis_def parse_election_query_def handler_parse_def log_reraise_def
      collect_def collect_news_def collect_social_media_def collect_twitter_def cursor_items_def
      stub_query_eval clock_read_def http_get_def dict_item_def dict_get_def log_event_def
      analyze_collected_def joined_texts_def py_join_def handler_analyze_def handler_predict_def
      empty_env_sel stub_env_sel empty_run_rest_def)

section \<open>Tweet collection\<close>

text \<open>
  \<open>_collect_twitter\<close> returns at most 1000 tweets (lines 207 to 212: \<open>items(1000)\<close>).
\<close>

theorem collect_twitter_at_most_1000:
  assumes "fst (collect_twitter env params tr) = Inr tweets"
  shows "length tweets \<le> 1000"
  using assms
  by (auto simp: collect_twitter_def fst_log_reraise cursor_items_def split: sum.splits)

theorem collect_twitter_at_most_1000_witness:
  "fst (collect_twitter busy_env stub_params []) =
     Inr (map (\<lambda>i. tweet_dict (stub_status (int i))) [1 ..< 1001]) \<and>
   length (map (\<lambda>i. tweet_dict (stub_status (int i))) [1 ..< 1001]) \<le> 1000"
proof -
  have q: "\<exists>q. twitter_query busy_env stub_params = Inr q"
    by (simp add: twitter_query_def candidate_terms_def place_terms_def
      stub_params_def dict_get_def py_join_def fmt_def)
  have t: "take 1000 (map (\<lambda>i. stub_status (int i)) [1 ..< 1200]) =
           map (\<lambda>i. stub_status (int i)) [1 ..< 1001]"
    by (simp add: take_map)
  from q t have r: "fst (collect_twitter busy_env stub_params []) =
     Inr (map (\<lambda>i. tweet_dict (stub_status (int i))) [1 ..< 1001])"
    by (auto simp: collect_twitter_def fst_log_reraise cursor_items_def busy_env_def comp_def)
  from r collect_twitter_at_most_1000 [OF r] show ?thesis by simp
qed

section \<open>The Predictor's contract\<close>

lemma clamp01_range: "0 \<le> clamp01 x \<and> clamp01 x \<le> 1"
  by (simp add: clamp01_def)

text \<open>
  C6. For every sequence of candidate names the Predictor returns exactly one entry per
  distinct name, every probability and the confidence in [0,1]; for zero candidates it
  returns the empty predictions mapping and confidence 0.
\<close>

theorem predict_contract:
  "map fst (predictions (predict score conf candidates)) = remdups candidates \<and>
   distinct (map fst (predictions (predict score conf candidates))) \<and>
   set (map fst (predictions (predict score conf candidates))) = set candidates \<and>
   (\<forall>entry \<in> set (predictions (predict score conf candidates)).
       0 \<le> snd entry \<and> snd entry \<le> 1) \<and>
   0 \<le> confidence (predict score conf candidates) \<and>
   confidence (predict score conf candidates) \<le> 1 \<and>
   predict score conf [] = \<lparr>confidence = 0, predictions = []\<rparr>"
proof -
  have m: "map fst (predictions (predict score conf candidates)) = remdups candidates"
    by (simp add: predict_def comp_def)
  have b: "\<forall>entry \<in> set (predictions (predict score conf candidates)).
       0 \<le> snd entry \<and> snd entry \<le> 1"
    by (auto simp: predict_def clamp01_range)
  have c: "0 \<le> confidence (predict score conf candidates) \<and>
   confidence (predict score conf candidates) \<le> 1"
    by (simp add: predict_def clamp01_range)
  have e: "predict score conf [] = \<lparr>confidence = 0, predictions = []\<rparr>"
    by (simp add: predict_def)
  from m b c e show ?thesis by simp
qed

theorem predict_contract_witness:
  "predict (\<lambda>c. if c = ''A'' then 3 / 2 else if c = ''B'' then - 1 else 1 / 4) 2
      [''A'', ''B'', ''A'', ''C''] =
     \<lparr>confidence = 1, predictions = [(''B'', 0), (''A'', 1), (''C'', 1 / 4)]\<rparr> \<and>
   map fst (predictions (predict (\<lambda>c. if c = ''A'' then 3 / 2 else if c = ''B'' then - 1 else 1 / 4) 2
      [''A'', ''B'', ''A'', ''C''])) = [''B'', ''A'', ''C'']"
proof -
  have v: "predict (\<lambda>c. if c = ''A'' then 3 / 2 else if c = ''B'' then - 1 else 1 / 4) 2
      [''A'', ''B'', ''A'', ''C''] =
     \<lparr>confidence = 1, predictions = [(''B'', 0), (''A'', 1), (''C'', 1 / 4)]\<rparr>"
    by (simp add: predict_def clamp01_def)
  from predict_contract [of "\<lambda>c. if c = ''A'' then 3 / 2 else if c = ''B'' then - 1 else 1 / 4" 2
         "[''A'', ''B'', ''A'', ''C'']"] v
  show ?thesis by simp
qed

end
